theory Spec2Isabelle
  imports Complex_Main "HOL-Library.Word" "HOL-Library.AList"
    "HOL-Library.Char_ord" "HOL-Library.List_Lexorder"
begin

section \<open>Values shared by make\_chips.py and build\_catalog.py\<close>

text \<open>
  What \<^verbatim>\<open>json.load\<close> returns. A Python dict keeps insertion order, so an object is an
  association list; \<^verbatim>\<open>d.get(k)\<close> is \<open>map_of\<close>. Python floats that the pipeline handles
  (pixel shifts) are finite, and are modelled by the rationals.
\<close>

datatype json =
    JNull
  | JBool bool
  | JInt int
  | JFloat rat
  | JStr string
  | JArr "json list"
  | JObj "(string \<times> json) list"

text \<open>The Python exceptions that the two scripts can meet.\<close>

datatype error =
    TypeError
  | AttributeError
  | IndexError
  | AxisError
  | ValueError
  | JSONDecodeError
  | RasterioIOError

text \<open>\<^verbatim>\<open>d.get(k, default)\<close> on a dict.\<close>

definition dict_get :: "(string \<times> 'v) list \<Rightarrow> string \<Rightarrow> 'v \<Rightarrow> 'v" where
  "dict_get d k dflt = (case map_of d k of None \<Rightarrow> dflt | Some v \<Rightarrow> v)"

text \<open>
  \<^verbatim>\<open>str.lower()\<close> on the ASCII letters; the other bytes are left as they are, so the text
  of a subtype with letters outside ASCII is not lower-cased as Python does it. No key of
  the damage table has such a letter or is the lower case of a string that has one.
\<close>

definition lower_char :: "char \<Rightarrow> char" where
  "lower_char c =
     (let n = (of_char c :: nat) in if 65 \<le> n \<and> n \<le> 90 then char_of (n + 32) else c)"

definition lower :: "string \<Rightarrow> string" where
  "lower s = map lower_char s"

text \<open>\<^verbatim>\<open>s.endswith(t)\<close>, and whether \<open>t\<close> occurs in \<open>s\<close>.\<close>

definition endswith :: "string \<Rightarrow> string \<Rightarrow> bool" where
  "endswith s t = (length t \<le> length s \<and> drop (length s - length t) s = t)"

fun contains :: "string \<Rightarrow> string \<Rightarrow> bool" where
  "contains [] t = (t = [])"
| "contains (c # cs) t = (take (length t) (c # cs) = t \<or> contains cs t)"

section \<open>make\_chips.py: configuration\<close>

definition CROP_SIZE :: int where
  "CROP_SIZE = 128"

definition DOWNSAMPLE_FOR_SHIFT :: int where
  "DOWNSAMPLE_FOR_SHIFT = 4"

definition MAX_SHIFT_PX :: int where
  "MAX_SHIFT_PX = 20"

definition DAMAP :: "(string \<times> int) list" where
  "DAMAP =
     [(''no-damage'', 0), (''none'', 0), (''undamaged'', 0),
      (''minor-damage'', 1), (''minor_damage'', 1), (''minor'', 1),
      (''major-damage'', 2), (''major_damage'', 2), (''major'', 2),
      (''destroyed'', 3), (''total-destruction'', 3)]"

section \<open>make\_chips.py: rasters, windows and arrays\<close>

text \<open>
  An opened rasterio dataset: its size, its number of bands, its pixels as
  \<^verbatim>\<open>out_dtype=np.uint8\<close> reads them (band from 0, row, column), and its georeferencing as
  \<^verbatim>\<open>ds.index(x, y)\<close>, which returns the pair (row, col) of the pixel holding (x, y).
\<close>

record raster =
  width :: int
  height :: int
  count :: nat
  px :: "nat \<Rightarrow> int \<Rightarrow> int \<Rightarrow> 8 word"
  index :: "rat \<Rightarrow> rat \<Rightarrow> int \<times> int"

text \<open>\<^verbatim>\<open>rasterio.windows.Window(col_off, row_off, width, height)\<close>.\<close>

record window =
  col_off :: int
  row_off :: int
  win_width :: int
  win_height :: int

text \<open>A numpy array of bytes: its shape, and the element at an index.\<close>

record ndarray =
  shape :: "nat list"
  item :: "nat list \<Rightarrow> 8 word"

definition ndim :: "ndarray \<Rightarrow> nat" where
  "ndim a = length (shape a)"

text \<open>Python's \<^verbatim>\<open>round\<close> to an integer: the nearest one, a half going to the even one.\<close>

definition py_round :: "rat \<Rightarrow> int" where
  "py_round x =
     (let f = \<lfloor>x\<rfloor>; d = x - of_int f
      in if d < 1 / 2 then f else if 1 / 2 < d then f + 1 else if even f then f else f + 1)"

definition safe_window_centered :: "rat \<Rightarrow> rat \<Rightarrow> int \<Rightarrow> int \<Rightarrow> int \<Rightarrow> window" where
  "safe_window_centered col row sz w h =
     (let half = sz div 2;
          c0 = py_round (col - of_int half);
          r0 = py_round (row - of_int half);
          c0 = max 0 (min c0 (w - sz));
          r0 = max 0 (min r0 (h - sz))
      in \<lparr>col_off = c0, row_off = r0, win_width = sz, win_height = sz\<rparr>)"

text \<open>
  \<^verbatim>\<open>ds.read(window=win, out_dtype=np.uint8, boundless=True)\<close>: no band index is given, so
  all bands are read and the result has three axes (band, row, column); a pixel of the
  window that lies outside the raster is 0.
\<close>

definition ds_read :: "raster \<Rightarrow> window \<Rightarrow> ndarray" where
  "ds_read ds win =
     \<lparr>shape = [count ds, nat (win_height win), nat (win_width win)],
      item = (\<lambda>idx. case idx of
              [b, i, j] \<Rightarrow>
                (let r = row_off win + int i; c = col_off win + int j
                 in if 0 \<le> r \<and> r < height ds \<and> 0 \<le> c \<and> c < width ds
                    then px ds b r c else 0)
            | _ \<Rightarrow> 0)\<rparr>"

text \<open>\<^verbatim>\<open>np.moveaxis(a, 0, 2)\<close>; numpy raises when the array has no axis 2.\<close>

definition np_moveaxis_0_2 :: "ndarray \<Rightarrow> error + ndarray" where
  "np_moveaxis_0_2 a =
     (case shape a of
        d0 # d1 # d2 # ds \<Rightarrow>
          Inr \<lparr>shape = d1 # d2 # d0 # ds,
               item = (\<lambda>idx. case idx of i # j # k # r \<Rightarrow> item a (k # i # j # r) | _ \<Rightarrow> 0)\<rparr>
      | _ \<Rightarrow> Inl AxisError)"

text \<open>\<^verbatim>\<open>np.stack([a]*3, axis=2)\<close> on an array with two axes.\<close>

definition np_stack3_axis2 :: "ndarray \<Rightarrow> ndarray" where
  "np_stack3_axis2 a =
     \<lparr>shape = take 2 (shape a) @ [3] @ drop 2 (shape a),
      item = (\<lambda>idx. item a (take 2 idx @ drop 3 idx))\<rparr>"

text \<open>\<^verbatim>\<open>np.clip(x, lo, hi)\<close>.\<close>

definition np_clip :: "rat \<Rightarrow> rat \<Rightarrow> rat \<Rightarrow> rat" where
  "np_clip x lo hi = min (max x lo) hi"

section \<open>make\_chips.py: the label parser\<close>

text \<open>
  A shapely geometry, seen through the two things the pipeline asks of it: \<^verbatim>\<open>is_valid\<close>
  and the coordinates of its centroid.
\<close>

record geom =
  is_valid :: bool
  centroid_x :: rat
  centroid_y :: rat

text \<open>
  The library calls whose results the scripts only pass on:
  \<^item> \<open>str_of\<close>: \<^verbatim>\<open>str(v)\<close> for a value that is not already a string;
  \<^item> \<open>wkt_loads\<close>: \<^verbatim>\<open>shapely.wkt.loads\<close> on a string, \<open>None\<close> when it raises;
  \<^item> \<open>phase_shift\<close>: the luminance planes of two opened rasters (bands 1 to 3 weighted,
    downsampled, normalised) given to \<^verbatim>\<open>phase_cross_correlation\<close>; the result is the
    shift \<open>(dy, dx)\<close>, or the exception raised on the way.
\<close>

record pylib =
  str_of :: "json \<Rightarrow> string"
  wkt_loads :: "string \<Rightarrow> geom option"
  phase_shift :: "raster \<Rightarrow> raster \<Rightarrow> error + rat \<times> rat"

definition py_str :: "pylib \<Rightarrow> json \<Rightarrow> string" where
  "py_str L v = (case v of JStr s \<Rightarrow> s | _ \<Rightarrow> str_of L v)"

record feature =
  geom :: geom
  label_int :: int
  label_text :: string

text \<open>\<^verbatim>\<open>feats += x\<close>: the list is extended by iterating \<open>x\<close>; a value that cannot be
  iterated raises.\<close>

fun list_iadd :: "json list \<Rightarrow> json \<Rightarrow> error + json list" where
  "list_iadd feats (JArr xs) = Inr (feats @ xs)"
| "list_iadd feats (JStr s) = Inr (feats @ map (\<lambda>c. JStr [c]) s)"
| "list_iadd feats (JObj kvs) = Inr (feats @ map (\<lambda>kv. JStr (fst kv)) kvs)"
| "list_iadd feats _ = Inl TypeError"

text \<open>Lines 90 to 100: which list of raw features the record holds.\<close>

fun select_feats :: "json \<Rightarrow> error + json list" where
  "select_feats (JObj gj) =
     (case map_of gj ''features'' of
        None \<Rightarrow> Inr []
      | Some (JObj f) \<Rightarrow>
          (case list_iadd [] (dict_get f ''lng_lat'' (JArr [])) of
             Inl e \<Rightarrow> Inl e
           | Inr feats \<Rightarrow> list_iadd feats (dict_get f ''xy'' (JArr [])))
      | Some (JArr f) \<Rightarrow> Inr f
      | Some _ \<Rightarrow> Inr [])"
| "select_feats (JArr gj) = Inr gj"
| "select_feats _ = Inr []"

text \<open>
  The body of the loop over the raw features (lines 103 to 114): \<open>Inr None\<close> is
  \<^verbatim>\<open>continue\<close>, \<open>Inr (Some f)\<close> is \<^verbatim>\<open>out.append(f)\<close>, \<open>Inl e\<close> is an exception that
  leaves the function. \<^verbatim>\<open>props.get\<close> exists only when \<open>props\<close> is a dict.
\<close>

definition feature_of :: "pylib \<Rightarrow> json \<Rightarrow> error + feature option" where
  "feature_of L ft =
     (case ft of
        JObj d \<Rightarrow>
          (case dict_get d ''properties'' (JObj []) of
             JObj props \<Rightarrow>
               if map_of props ''feature_type'' \<noteq> Some (JStr ''building'') then Inr None
               else
                 let dmg_text = lower (py_str L (dict_get props ''subtype'' (JStr ''unknown'')));
                     dmg_int = dict_get DAMAP dmg_text 0
                 in (case map_of d ''wkt'' of
                       Some (JStr wkt_str) \<Rightarrow>
                         (case wkt_loads L wkt_str of
                            None \<Rightarrow> Inr None
                          | Some g \<Rightarrow>
                              if \<not> is_valid g then Inr None
                              else Inr (Some \<lparr>geom = g, label_int = dmg_int,
                                               label_text = dmg_text\<rparr>))
                     | _ \<Rightarrow> Inr None)
           | _ \<Rightarrow> Inl AttributeError)
      | _ \<Rightarrow> Inr None)"

fun features_loop ::
  "pylib \<Rightarrow> json list \<Rightarrow> feature list \<Rightarrow> error + feature list" where
  "features_loop L [] out = Inr out"
| "features_loop L (ft # feats) out =
     (case feature_of L ft of
        Inl e \<Rightarrow> Inl e
      | Inr None \<Rightarrow> features_loop L feats out
      | Inr (Some f) \<Rightarrow> features_loop L feats (out @ [f]))"

text \<open>
  The argument is what \<^verbatim>\<open>json.load(open(label_path))\<close> gives: the parsed value, or the
  exception it raised.
\<close>

definition load_wkt_features ::
  "pylib \<Rightarrow> error + json \<Rightarrow> error + feature list" where
  "load_wkt_features L label_file =
     (case label_file of
        Inl _ \<Rightarrow> Inr []
      | Inr gj \<Rightarrow>
          (case select_feats gj of
             Inl e \<Rightarrow> Inl e
           | Inr feats \<Rightarrow> features_loop L feats []))"

section \<open>make\_chips.py: paths and the pairing of tiles\<close>

text \<open>
  A path below the images directory is the directory it lies in and its name
  (\<^verbatim>\<open>p.name\<close>). Names are compared byte for byte, as a POSIX file system does.
\<close>

type_synonym path = "string \<times> string"

definition with_name :: "path \<Rightarrow> string \<Rightarrow> path" where
  "with_name p name = (fst p, name)"

text \<open>\<^verbatim>\<open>s.rfind(c)\<close>: the last position of \<open>c\<close>, or -1.\<close>

definition rfind :: "string \<Rightarrow> char \<Rightarrow> int" where
  "rfind s c =
     (if c \<in> set s then int (length s) - 1 - int (length (takeWhile (\<lambda>x. x \<noteq> c) (rev s)))
      else - 1)"

text \<open>pathlib's \<^verbatim>\<open>suffix\<close> and \<^verbatim>\<open>with_suffix\<close> of a (non-empty) name.\<close>

definition path_suffix :: "string \<Rightarrow> string" where
  "path_suffix name =
     (let i = rfind name CHR ''.''
      in if 0 < i \<and> i < int (length name) - 1 then drop (nat i) name else [])"

definition with_suffix :: "string \<Rightarrow> string \<Rightarrow> string" where
  "with_suffix name suffix =
     (let old_suffix = path_suffix name
      in if old_suffix = [] then name @ suffix
         else take (length name - length old_suffix) name @ suffix)"

text \<open>
  \<^verbatim>\<open>PAIR_RX.match(name)\<close> for the pattern
  \<^verbatim>\<open>(.*)_(pre|post)_disaster\.(?:tif|tiff|png)$\<close> with \<^verbatim>\<open>re.IGNORECASE\<close>. The pattern is
  anchored at both ends, so a match is a split of the name into group 1 and one of six
  tails; \<^verbatim>\<open>.\<close> does not match a newline and \<^verbatim>\<open>$\<close> also matches before a final newline.
  The result is (group 1, group 2's alternative). Letters are compared as ASCII bytes:
  the four code points outside ASCII that \<^verbatim>\<open>re.IGNORECASE\<close> also takes for i, s and k
  (U+0130, U+0131, U+017F, U+212A) are not matched here.
\<close>

definition PAIR_RX_tails :: "(string \<times> string) list" where
  "PAIR_RX_tails =
     [(k, ''_'' @ k @ ''_disaster.'' @ e). k \<leftarrow> [''pre'', ''post''], e \<leftarrow> [''tif'', ''tiff'', ''png'']]"

definition PAIR_RX_match :: "string \<Rightarrow> (string \<times> string) option" where
  "PAIR_RX_match name =
     (let core = (if name \<noteq> [] \<and> last name = CHR 0x0A then butlast name else name);
          hits = [(take (length core - length (snd kt)) core, fst kt).
                    kt \<leftarrow> PAIR_RX_tails,
                    endswith (lower core) (snd kt),
                    CHR 0x0A \<notin> set (take (length core - length (snd kt)) core)]
      in case hits of [] \<Rightarrow> None | h # _ \<Rightarrow> Some h)"

text \<open>\<^verbatim>\<open>images_dir.rglob("*_pre_disaster.*")\<close> over the entries below the images directory.\<close>

definition rglob_pre_disaster :: "path list \<Rightarrow> path list" where
  "rglob_pre_disaster tree = filter (\<lambda>p. contains (snd p) ''_pre_disaster.'') tree"

text \<open>
  Lines 126 to 133. The dict \<^verbatim>\<open>pairs\<close> is an association list in insertion order;
  \<^verbatim>\<open>pairs[stem] = v\<close> is \<open>AList.update\<close>.
\<close>

fun pair_pre_post ::
  "path list \<Rightarrow> path list \<Rightarrow> (string \<times> path \<times> path) list \<Rightarrow> (string \<times> path \<times> path) list" where
  "pair_pre_post tree [] pairs = pairs"
| "pair_pre_post tree (p # ps) pairs =
     (case PAIR_RX_match (snd p) of
        None \<Rightarrow> pair_pre_post tree ps pairs
      | Some m \<Rightarrow>
          (let stem = fst m;
               post = with_name p (stem @ ''_post_disaster'' @ path_suffix (snd p))
           in if post \<in> set tree
              then pair_pre_post tree ps (AList.update stem (p, post) pairs)
              else pair_pre_post tree ps pairs))"

section \<open>make\_chips.py: the shift of a pair\<close>

type_synonym rasters = "path \<Rightarrow> raster option"

definition rasterio_open :: "rasters \<Rightarrow> path \<Rightarrow> error + raster" where
  "rasterio_open fs p = (case fs p of None \<Rightarrow> Inl RasterioIOError | Some ds \<Rightarrow> Inr ds)"

text \<open>
  \<^verbatim>\<open>read_preview_gray\<close> opens the raster and reads bands 1 to 3, which raises on a raster
  with fewer bands. The plane it computes from them is a function of the raster; it
  stays inside \<open>phase_shift\<close>.
\<close>

definition read_preview_gray :: "rasters \<Rightarrow> path \<Rightarrow> error + raster" where
  "read_preview_gray fs p =
     (case rasterio_open fs p of
        Inl e \<Rightarrow> Inl e
      | Inr ds \<Rightarrow> if count ds < 3 then Inl IndexError else Inr ds)"

definition estimate_shift :: "pylib \<Rightarrow> rasters \<Rightarrow> path \<Rightarrow> path \<Rightarrow> error + rat \<times> rat" where
  "estimate_shift L fs pre_path post_path =
     (case read_preview_gray fs pre_path of
        Inl e \<Rightarrow> Inl e
      | Inr g_pre \<Rightarrow>
          (case read_preview_gray fs post_path of
             Inl e \<Rightarrow> Inl e
           | Inr g_post \<Rightarrow>
               (case phase_shift L g_pre g_post of
                  Inl e \<Rightarrow> Inl e
                | Inr shift \<Rightarrow>
                    (let dy = fst shift; dx = snd shift
                     in Inr (np_clip (dx * of_int DOWNSAMPLE_FOR_SHIFT)
                               (- of_int MAX_SHIFT_PX) (of_int MAX_SHIFT_PX),
                             np_clip (dy * of_int DOWNSAMPLE_FOR_SHIFT)
                               (- of_int MAX_SHIFT_PX) (of_int MAX_SHIFT_PX))))))"

section \<open>make\_chips.py: the chips of a split\<close>

text \<open>
  The output directory of a split: file names and what was written under them, in the
  order of creation. Writing a file replaces what the name held. A chip file holds the
  array given to \<^verbatim>\<open>save_png\<close>; \<open>Other\<close> is any content that \<^verbatim>\<open>json.load\<close> rejects.
\<close>

datatype file_content =
    PNG ndarray
  | JSON json
  | CSV "string list" "json list list"
  | Other

type_synonym dir = "(string \<times> file_content) list"

definition write_file :: "string \<Rightarrow> file_content \<Rightarrow> dir \<Rightarrow> dir" where
  "write_file name f d = AList.update name f d"

definition exists :: "dir \<Rightarrow> string \<Rightarrow> bool" where
  "exists d name = (map_of d name \<noteq> None)"

text \<open>
  What a split's input holds: whether its directory is there, the entries below the
  images directory that \<^verbatim>\<open>find_images_dir\<close> picks, in the order \<^verbatim>\<open>rglob\<close> walks them, the
  entries that open as rasters, and for each file of its labels directory what
  \<^verbatim>\<open>json.load\<close> makes of it.
\<close>

record split_input =
  split_name :: string
  root_exists :: bool
  image_tree :: "path list"
  rasters :: rasters
  label_files :: "string \<Rightarrow> (error + json) option"

text \<open>The two accumulators of \<^verbatim>\<open>process_split\<close> and the output directory.\<close>

record split_state =
  shifts :: "(string \<times> rat \<times> rat) list"
  manifest :: "json list list"
  out_files :: dir

text \<open>The decimal digits of a number, and the format \<^verbatim>\<open>{i:05d}\<close>.\<close>

fun decimal :: "nat \<Rightarrow> string" where
  "decimal n =
     (if n < 10 then [char_of (48 + n)] else decimal (n div 10) @ [char_of (48 + n mod 10)])"

declare decimal.simps [simp del]

definition fmt_05d :: "nat \<Rightarrow> string" where
  "fmt_05d i = replicate (5 - length (decimal i)) CHR ''0'' @ decimal i"

definition chip_name :: "string \<Rightarrow> nat \<Rightarrow> string" where
  "chip_name stem i = stem @ ''_b'' @ fmt_05d i @ ''.png''"

definition out_split :: "string \<Rightarrow> string" where
  "out_split spl = ''chips_post/'' @ spl @ ''/''"

definition label_dir :: "string \<Rightarrow> string" where
  "label_dir spl = ''../data/geotiffs/'' @ spl @ ''/labels/''"

text \<open>Lines 152 and 153: the window of a building.\<close>

definition chip_window :: "raster \<Rightarrow> feature \<Rightarrow> window" where
  "chip_window ds b =
     (let rc = index ds (centroid_x (geom b)) (centroid_y (geom b));
          cx = fst rc; cy = snd rc
      in safe_window_centered (of_int cx) (of_int cy) CROP_SIZE (width ds) (height ds))"

text \<open>Lines 154 to 156: the array given to \<^verbatim>\<open>save_png\<close>.\<close>

definition read_chip :: "raster \<Rightarrow> feature \<Rightarrow> error + ndarray" where
  "read_chip ds b =
     (case np_moveaxis_0_2 (ds_read ds (chip_window ds b)) of
        Inl e \<Rightarrow> Inl e
      | Inr chip \<Rightarrow> Inr (if ndim chip = 2 then np_stack3_axis2 chip else chip))"

definition sidecar ::
  "string \<Rightarrow> string \<Rightarrow> nat \<Rightarrow> rat \<times> rat \<Rightarrow> feature \<Rightarrow> json" where
  "sidecar spl stem i sh b =
     JObj [(''image_path'', JStr (out_split spl @ chip_name stem i)),
           (''label_int'', JInt (label_int b)),
           (''label_text'', JStr (label_text b)),
           (''stem'', JStr stem),
           (''idx'', JInt (int i)),
           (''shift_dx'', JFloat (fst sh)),
           (''shift_dy'', JFloat (snd sh)),
           (''label_file'', JStr (label_dir spl @ stem @ ''_post_disaster.json''))]"

definition manifest_row ::
  "string \<Rightarrow> string \<Rightarrow> nat \<Rightarrow> rat \<times> rat \<Rightarrow> feature \<Rightarrow> json list" where
  "manifest_row spl stem i sh b =
     [JStr (out_split spl @ chip_name stem i), JInt (label_int b), JStr (label_text b),
      JStr stem, JInt (int i), JFloat (fst sh), JFloat (snd sh)]"

text \<open>The loop over the buildings of one tile (lines 151 to 169).\<close>

fun emit_chips ::
  "raster \<Rightarrow> string \<Rightarrow> string \<Rightarrow> rat \<times> rat \<Rightarrow> nat \<Rightarrow> feature list \<Rightarrow> split_state
     \<Rightarrow> error + split_state" where
  "emit_chips ds spl stem sh i [] st = Inr st"
| "emit_chips ds spl stem sh i (b # feats) st =
     (case read_chip ds b of
        Inl e \<Rightarrow> Inl e
      | Inr chip \<Rightarrow>
          emit_chips ds spl stem sh (Suc i) feats
            (st\<lparr>out_files :=
                  write_file (with_suffix (chip_name stem i) ''.json'')
                    (JSON (sidecar spl stem i sh b))
                    (write_file (chip_name stem i) (PNG chip) (out_files st)),
                manifest := manifest st @ [manifest_row spl stem i sh b]\<rparr>))"

text \<open>Lines 139 to 141: the shift of a pair, (0.0, 0.0) when the estimate raises.\<close>

definition pair_shift :: "pylib \<Rightarrow> rasters \<Rightarrow> path \<Rightarrow> path \<Rightarrow> rat \<times> rat" where
  "pair_shift L fs pre post =
     (case estimate_shift L fs pre post of Inl _ \<Rightarrow> (0, 0) | Inr sh \<Rightarrow> sh)"

text \<open>The loop over the pairs (lines 137 to 169).\<close>

fun process_pairs ::
  "pylib \<Rightarrow> split_input \<Rightarrow> (string \<times> path \<times> path) list \<Rightarrow> split_state
     \<Rightarrow> error + split_state" where
  "process_pairs L inp [] st = Inr st"
| "process_pairs L inp (pr # rest) st =
     (let stem = fst pr; pre = fst (snd pr); post = snd (snd pr);
          sh = pair_shift L (rasters inp) pre post;
          st1 = st\<lparr>shifts := AList.update stem sh (shifts st)\<rparr>
      in case label_files inp (stem @ ''_post_disaster.json'') of
           None \<Rightarrow> process_pairs L inp rest st1
         | Some label_file \<Rightarrow>
             (case load_wkt_features L label_file of
                Inl e \<Rightarrow> Inl e
              | Inr feats \<Rightarrow>
                  if feats = [] then process_pairs L inp rest st1
                  else
                    (case rasterio_open (rasters inp) post of
                       Inl e \<Rightarrow> Inl e
                     | Inr ds \<Rightarrow>
                         (case emit_chips ds (split_name inp) stem sh 0 feats st1 of
                            Inl e \<Rightarrow> Inl e
                          | Inr st2 \<Rightarrow> process_pairs L inp rest st2))))"

definition shifts_json :: "(string \<times> rat \<times> rat) list \<Rightarrow> json" where
  "shifts_json shs =
     JObj (map (\<lambda>e. (fst e, JObj [(''dx'', JFloat (fst (snd e))), (''dy'', JFloat (snd (snd e)))])) shs)"

definition manifest_header :: "string list" where
  "manifest_header = [''image_path'', ''label_int'', ''label_text'', ''stem'', ''idx'', ''dx'', ''dy'']"

definition resolve_pairs :: "split_input \<Rightarrow> (string \<times> path \<times> path) list" where
  "resolve_pairs inp =
     pair_pre_post (image_tree inp) (rglob_pre_disaster (image_tree inp)) []"

text \<open>
  \<^verbatim>\<open>process_split\<close>: the state when it returns, or the exception that leaves it. The
  directory given is the output directory of the split before the run. What the function
  prints is left out.
\<close>

definition process_split :: "pylib \<Rightarrow> split_input \<Rightarrow> dir \<Rightarrow> error + split_state" where
  "process_split L inp out =
     (if \<not> root_exists inp then Inr \<lparr>shifts = [], manifest = [], out_files = out\<rparr>
      else
        (case process_pairs L inp (resolve_pairs inp)
                \<lparr>shifts = [], manifest = [], out_files = out\<rparr> of
           Inl e \<Rightarrow> Inl e
         | Inr st \<Rightarrow>
             (let out1 = write_file ''post_shifts.json'' (JSON (shifts_json (shifts st)))
                           (out_files st);
                  out2 = (if manifest st \<noteq> []
                          then write_file ''manifest.csv'' (CSV manifest_header (manifest st)) out1
                          else out1)
              in Inr (st\<lparr>out_files := out2\<rparr>))))"

section \<open>build\_catalog.py\<close>

text \<open>The truth value Python gives a JSON value.\<close>

definition truthy :: "json \<Rightarrow> bool" where
  "truthy v =
     (case v of
        JNull \<Rightarrow> False
      | JBool b \<Rightarrow> b
      | JInt n \<Rightarrow> n \<noteq> 0
      | JFloat x \<Rightarrow> x \<noteq> 0
      | JStr s \<Rightarrow> s \<noteq> []
      | JArr xs \<Rightarrow> xs \<noteq> []
      | JObj kvs \<Rightarrow> kvs \<noteq> [])"

text \<open>
  The body of the loop over the sidecars (lines 46 to 65): \<open>Some row\<close> when a row is
  appended, \<open>None\<close> when the file is skipped, by \<^verbatim>\<open>continue\<close> or by the exception that a
  file which is not a JSON object raises.
\<close>

definition sidecar_row :: "dir \<Rightarrow> string \<times> file_content \<Rightarrow> json list option" where
  "sidecar_row d sc =
     (case snd sc of
        JSON (JObj meta) \<Rightarrow>
          (let img = dict_get meta ''image_path'' JNull;
               label_int = dict_get meta ''label_int'' JNull;
               label_text = dict_get meta ''label_text'' (JStr ''unknown'');
               event_id = dict_get meta ''event_id'' (JStr []);
               tile_id = dict_get meta ''tile_id'' (JStr []);
               stem = dict_get meta ''stem'' (JStr []);
               idx = dict_get meta ''idx'' (JInt 0)
           in if \<not> truthy img \<or> \<not> exists d (with_suffix (fst sc) ''.png'') then None
              else Some [img, label_int, label_text, tile_id, event_id, stem, idx])
      | _ \<Rightarrow> None)"

fun catalog_rows :: "dir \<Rightarrow> (string \<times> file_content) list \<Rightarrow> json list list \<Rightarrow> json list list" where
  "catalog_rows d [] rows = rows"
| "catalog_rows d (sc # sidecars) rows =
     (case sidecar_row d sc of
        None \<Rightarrow> catalog_rows d sidecars rows
      | Some row \<Rightarrow> catalog_rows d sidecars (rows @ [row]))"

text \<open>\<^verbatim>\<open>sorted(split_dir.glob("*.json"))\<close>.\<close>

definition glob_json :: "dir \<Rightarrow> (string \<times> file_content) list" where
  "glob_json d = sort_key fst (filter (\<lambda>sc. endswith (fst sc) ''.json'') d)"

definition catalog_header :: "string list" where
  "catalog_header =
     [''image_path'', ''label_int'', ''label_text'', ''tile_id'', ''event_id'', ''stem'', ''idx'']"

text \<open>
  \<^verbatim>\<open>build_catalog_for_split\<close> on the directory of a split (\<open>None\<close> when it is missing): the
  directory afterwards. The summary that lines 78 to 85 print once the file is written
  changes no file and is left out.
\<close>

definition build_catalog_for_split :: "dir option \<Rightarrow> dir option" where
  "build_catalog_for_split split_dir =
     (case split_dir of
        None \<Rightarrow> None
      | Some d \<Rightarrow>
          (let sidecars = glob_json d
           in if sidecars = [] then Some d
              else
                (let rows = catalog_rows d sidecars []
                 in if rows = [] then Some d
                    else Some (write_file ''catalog.csv'' (CSV catalog_header rows) d))))"

section \<open>The effect of a run on its state\<close>

text \<open>
  A sequence of writes applied to a directory, and the change that a part of a run makes
  to the state: entries put into the shift log, rows appended to the manifest, files
  written.
\<close>

definition write_all :: "(string \<times> file_content) list \<Rightarrow> dir \<Rightarrow> dir" where
  "write_all ws d = fold (\<lambda>w. write_file (fst w) (snd w)) ws d"

definition apply_effect ::
  "(string \<times> rat \<times> rat) list \<Rightarrow> json list list \<Rightarrow> (string \<times> file_content) list
     \<Rightarrow> split_state \<Rightarrow> split_state" where
  "apply_effect shs rows ws st =
     \<lparr>shifts = fold (\<lambda>e. AList.update (fst e) (snd e)) shs (shifts st),
      manifest = manifest st @ rows,
      out_files = write_all ws (out_files st)\<rparr>"

section \<open>Concrete inputs\<close>

text \<open>
  A raster without georeferencing has the identity transform: x is the column and y the
  row, so \<^verbatim>\<open>ds.index(x, y)\<close> is (floor y, floor x).
\<close>

definition identity_index :: "rat \<Rightarrow> rat \<Rightarrow> int \<times> int" where
  "identity_index x y = (\<lfloor>y\<rfloor>, \<lfloor>x\<rfloor>)"

definition tile :: "nat \<Rightarrow> raster" where
  "tile bands =
     \<lparr>width = 512, height = 512, count = bands, px = (\<lambda>b r c. 0), index = identity_index\<rparr>"

definition point :: "rat \<Rightarrow> rat \<Rightarrow> geom" where
  "point x y = \<lparr>is_valid = True, centroid_x = x, centroid_y = y\<rparr>"

text \<open>A library that parses three geometries and measures the shift (dy, dx) = (-7, 0.3).\<close>

definition sample_lib :: pylib where
  "sample_lib =
     \<lparr>str_of = (\<lambda>v. ''None''),
      wkt_loads = (\<lambda>s. if s = ''POINT (10 10)'' then Some (point 10 10)
                        else if s = ''POINT (256 256)'' then Some (point 256 256)
                        else if s = ''POINT (400 100)'' then Some (point 400 100)
                        else None),
      phase_shift = (\<lambda>pre post. Inr (- 7, 3 / 10))\<rparr>"

definition building :: "string \<Rightarrow> string \<Rightarrow> json" where
  "building subtype wkt_str =
     JObj [(''properties'',
            JObj [(''feature_type'', JStr ''building''), (''subtype'', JStr subtype)]),
           (''wkt'', JStr wkt_str)]"

definition feature_at :: "rat \<Rightarrow> rat \<Rightarrow> feature" where
  "feature_at x y = \<lparr>geom = point x y, label_int = 3, label_text = ''destroyed''\<rparr>"

text \<open>The scenario of the specification: one event, two buildings.\<close>

definition eventA_labels :: json where
  "eventA_labels =
     JObj [(''features'',
            JObj [(''lng_lat'', JArr []),
                  (''xy'', JArr [building ''minor-damage'' ''POINT (10 10)'',
                                 building ''destroyed'' ''POINT (256 256)''])])]"

definition eventA :: split_input where
  "eventA =
     \<lparr>split_name = ''hold'', root_exists = True,
      image_tree = [(''images'', ''eventA_pre_disaster.tif''),
                    (''images'', ''eventA_post_disaster.tif''),
                    (''images'', ''eventB_pre_disaster.tif''),
                    (''images'', ''eventB_post_disaster.tif''),
                    (''images'', ''readme.txt'')],
      rasters = (\<lambda>p. if snd p = ''readme.txt'' then None else Some (tile 3)),
      label_files = (\<lambda>n. if n = ''eventA_post_disaster.json'' then Some (Inr eventA_labels)
                          else None)\<rparr>"

text \<open>The same event when the file of its post-disaster tile cannot be opened.\<close>

definition eventA_bad_post :: split_input where
  "eventA_bad_post =
     eventA\<lparr>rasters := (\<lambda>p. if snd p = ''eventA_post_disaster.tif'' then None
                               else rasters eventA p)\<rparr>"

text \<open>Three directories of images for the pairing of tiles.\<close>

definition upper_case_marker :: "path list" where
  "upper_case_marker =
     [(''images'', ''TILE_PRE_DISASTER.tif''), (''images'', ''TILE_POST_DISASTER.tif'')]"

definition upper_case_extension :: "path list" where
  "upper_case_extension =
     [(''images'', ''tile_pre_disaster.TIF''), (''images'', ''tile_post_disaster.tif'')]"

definition lone_post_file :: "path list" where
  "lone_post_file = [(''images'', ''a_pre_disaster.b_post_disaster.tif'')]"

text \<open>A directory of chips as \<^verbatim>\<open>build_catalog_for_split\<close> finds it.\<close>

definition chips_dir :: dir where
  "chips_dir =
     [(''eventA_b00000.png'', PNG \<lparr>shape = [128, 128, 3], item = (\<lambda>idx. 0)\<rparr>),
      (''eventA_b00000.json'',
         JSON (JObj [(''image_path'', JStr ''chips_post/hold/eventA_b00000.png''),
                     (''label_int'', JInt 1), (''label_text'', JStr ''minor-damage''),
                     (''stem'', JStr ''eventA''), (''idx'', JInt 0)])),
      (''post_shifts.json'',
         JSON (JObj [(''eventA'', JObj [(''dx'', JFloat 0), (''dy'', JFloat 0)])])),
      (''manifest.csv'', Other)]"

text \<open>
  A split whose only tile has the stem \<^verbatim>\<open>image_path\<close>, an output directory that already
  holds a file \<^verbatim>\<open>post_shifts.png\<close>, and that directory after the run.
\<close>

definition image_path_tiles :: split_input where
  "image_path_tiles =
     \<lparr>split_name = ''hold'', root_exists = True,
      image_tree = [(''images'', ''image_path_pre_disaster.tif''),
                    (''images'', ''image_path_post_disaster.tif'')],
      rasters = (\<lambda>p. Some (tile 3)),
      label_files = (\<lambda>n. None)\<rparr>"

definition stray_png :: dir where
  "stray_png = [(''post_shifts.png'', Other)]"

definition image_path_log :: json where
  "image_path_log =
     JObj [(''image_path'', JObj [(''dx'', JFloat (6 / 5)), (''dy'', JFloat (- 20))])]"

definition image_path_dir :: dir where
  "image_path_dir = [(''post_shifts.png'', Other), (''post_shifts.json'', JSON image_path_log)]"

section \<open>The damage taxonomy and the label parser\<close>

lemma dict_get_DAMAP_range: "dict_get DAMAP s 0 \<in> {0, 1, 2, 3}"
  by (simp add: dict_get_def DAMAP_def)

lemma feature_of_label:
  assumes "feature_of L ft = Inr (Some f)"
  shows "label_int f = dict_get DAMAP (label_text f) 0"
proof (cases ft)
  case ft: (JObj d)
  show ?thesis
  proof (cases "dict_get d ''properties'' (JObj [])")
    case (JObj props)
    with assms ft show ?thesis
      by (auto simp: feature_of_def Let_def split: if_splits option.splits json.splits)
  qed (use assms ft in \<open>simp_all add: feature_of_def\<close>)
qed (use assms in \<open>simp_all add: feature_of_def\<close>)

lemma features_loop_all:
  assumes "features_loop L fts acc = Inr res"
    and "\<forall>f\<in>set acc. P f"
    and "\<And>ft f. feature_of L ft = Inr (Some f) \<Longrightarrow> P f"
  shows "\<forall>f\<in>set res. P f"
  using assms(1,2)
proof (induction fts arbitrary: acc)
  case Nil
  then show ?case by simp
next
  case (Cons ft fts)
  show ?case
  proof (cases "feature_of L ft")
    case (Inl e)
    with Cons.prems show ?thesis by simp
  next
    case (Inr r)
    show ?thesis
    proof (cases r)
      case None
      with Inr Cons show ?thesis by simp
    next
      case (Some f)
      with Inr Cons.prems have "features_loop L fts (acc @ [f]) = Inr res" by simp
      moreover have "\<forall>f\<in>set (acc @ [f]). P f"
        using Cons.prems Inr Some assms(3) by auto
      ultimately show ?thesis using Cons.IH by blast
    qed
  qed
qed

lemma load_wkt_features_all:
  assumes "load_wkt_features L lf = Inr feats"
    and "\<And>ft f. feature_of L ft = Inr (Some f) \<Longrightarrow> P f"
  shows "\<forall>f\<in>set feats. P f"
proof (cases lf)
  case (Inl e)
  with assms(1) show ?thesis by (simp add: load_wkt_features_def)
next
  case (Inr gj)
  show ?thesis
  proof (cases "select_feats gj")
    case (Inl e)
    with assms(1) \<open>lf = Inr gj\<close> show ?thesis by (simp add: load_wkt_features_def)
  next
    case sel: (Inr raw)
    with assms(1) \<open>lf = Inr gj\<close> have "features_loop L raw [] = Inr feats"
      by (simp add: load_wkt_features_def)
    then show ?thesis
      by (rule features_loop_all) (simp_all add: assms(2))
  qed
qed

lemma feature_of_missing_subtype:
  assumes "map_of d ''properties'' = Some (JObj props)"
    and "map_of props ''feature_type'' = Some (JStr ''building'')"
    and "map_of props ''subtype'' = None"
    and "map_of d ''wkt'' = Some (JStr w)"
    and "wkt_loads L w = Some g"
    and "is_valid g"
  shows "feature_of L (JObj d) = Inr (Some \<lparr>geom = g, label_int = 0, label_text = ''unknown''\<rparr>)"
proof -
  have "lower ''unknown'' = ''unknown''" by code_simp
  moreover have "dict_get DAMAP ''unknown'' 0 = 0" by (simp add: dict_get_def DAMAP_def)
  ultimately show ?thesis
    using assms by (simp add: feature_of_def dict_get_def py_str_def)
qed

text \<open>
  Claim C3. \<^verbatim>\<open>DAMAP.get(text, 0)\<close> sends the eleven spellings of the table to their classes
  and every other string to 0; a building without a subtype gets the text \<open>unknown\<close> and
  class 0; and every feature that \<^verbatim>\<open>load_wkt_features\<close> returns carries the class of its
  own (lower-cased) text, one of 0, 1, 2, 3.
\<close>

theorem damage_taxonomy:
  "dict_get DAMAP ''no-damage'' 0 = 0 \<and> dict_get DAMAP ''none'' 0 = 0
   \<and> dict_get DAMAP ''undamaged'' 0 = 0
   \<and> dict_get DAMAP ''minor-damage'' 0 = 1 \<and> dict_get DAMAP ''minor_damage'' 0 = 1
   \<and> dict_get DAMAP ''minor'' 0 = 1
   \<and> dict_get DAMAP ''major-damage'' 0 = 2 \<and> dict_get DAMAP ''major_damage'' 0 = 2
   \<and> dict_get DAMAP ''major'' 0 = 2
   \<and> dict_get DAMAP ''destroyed'' 0 = 3 \<and> dict_get DAMAP ''total-destruction'' 0 = 3
   \<and> (\<forall>s. s \<notin> fst ` set DAMAP \<longrightarrow> dict_get DAMAP s 0 = 0)
   \<and> (\<forall>L d props w g.
         map_of d ''properties'' = Some (JObj props)
         \<longrightarrow> map_of props ''feature_type'' = Some (JStr ''building'')
         \<longrightarrow> map_of props ''subtype'' = None
         \<longrightarrow> map_of d ''wkt'' = Some (JStr w) \<longrightarrow> wkt_loads L w = Some g \<longrightarrow> is_valid g
         \<longrightarrow> feature_of L (JObj d)
             = Inr (Some \<lparr>geom = g, label_int = 0, label_text = ''unknown''\<rparr>))
   \<and> (\<forall>L lf feats.
         load_wkt_features L lf = Inr feats
         \<longrightarrow> (\<forall>f\<in>set feats.
                label_int f = dict_get DAMAP (label_text f) 0 \<and> label_int f \<in> {0, 1, 2, 3}))"
proof -
  have table: "dict_get DAMAP ''no-damage'' 0 = 0 \<and> dict_get DAMAP ''none'' 0 = 0
   \<and> dict_get DAMAP ''undamaged'' 0 = 0
   \<and> dict_get DAMAP ''minor-damage'' 0 = 1 \<and> dict_get DAMAP ''minor_damage'' 0 = 1
   \<and> dict_get DAMAP ''minor'' 0 = 1
   \<and> dict_get DAMAP ''major-damage'' 0 = 2 \<and> dict_get DAMAP ''major_damage'' 0 = 2
   \<and> dict_get DAMAP ''major'' 0 = 2
   \<and> dict_get DAMAP ''destroyed'' 0 = 3 \<and> dict_get DAMAP ''total-destruction'' 0 = 3"
    by (simp add: dict_get_def DAMAP_def)
  have other: "\<forall>s. s \<notin> fst ` set DAMAP \<longrightarrow> dict_get DAMAP s 0 = 0"
    by (simp add: dict_get_def DAMAP_def)
  have missing: "\<forall>L d props w g.
         map_of d ''properties'' = Some (JObj props)
         \<longrightarrow> map_of props ''feature_type'' = Some (JStr ''building'')
         \<longrightarrow> map_of props ''subtype'' = None
         \<longrightarrow> map_of d ''wkt'' = Some (JStr w) \<longrightarrow> wkt_loads L w = Some g \<longrightarrow> is_valid g
         \<longrightarrow> feature_of L (JObj d)
             = Inr (Some \<lparr>geom = g, label_int = 0, label_text = ''unknown''\<rparr>)"
    using feature_of_missing_subtype by blast
  have parsed: "\<forall>L lf feats.
         load_wkt_features L lf = Inr feats
         \<longrightarrow> (\<forall>f\<in>set feats.
                label_int f = dict_get DAMAP (label_text f) 0 \<and> label_int f \<in> {0, 1, 2, 3})"
  proof (intro allI impI)
    fix L lf feats
    assume "load_wkt_features L lf = Inr feats"
    then show "\<forall>f\<in>set feats.
        label_int f = dict_get DAMAP (label_text f) 0 \<and> label_int f \<in> {0, 1, 2, 3}"
    proof (rule load_wkt_features_all)
      fix ft f
      assume "feature_of L ft = Inr (Some f)"
      then have "label_int f = dict_get DAMAP (label_text f) 0" by (rule feature_of_label)
      then show "label_int f = dict_get DAMAP (label_text f) 0 \<and> label_int f \<in> {0, 1, 2, 3}"
        using dict_get_DAMAP_range [of "label_text f"] by simp
    qed
  qed
  from table other missing parsed show ?thesis by blast
qed

lemma eventA_features:
  "load_wkt_features sample_lib (Inr eventA_labels)
   = Inr [\<lparr>geom = point 10 10, label_int = 1, label_text = ''minor-damage''\<rparr>,
          \<lparr>geom = point 256 256, label_int = 3, label_text = ''destroyed''\<rparr>]"
proof -
  have l1: "lower ''minor-damage'' = ''minor-damage''" by code_simp
  have l2: "lower ''destroyed'' = ''destroyed''" by code_simp
  show ?thesis
    by (simp add: load_wkt_features_def eventA_labels_def building_def feature_of_def
        dict_get_def py_str_def sample_lib_def point_def l1 l2 DAMAP_def)
qed

text \<open>The scenario's label record parses to two features, of classes 1 and 3.\<close>

theorem damage_taxonomy_witness:
  "load_wkt_features sample_lib (Inr eventA_labels)
   = Inr [\<lparr>geom = point 10 10, label_int = 1, label_text = ''minor-damage''\<rparr>,
          \<lparr>geom = point 256 256, label_int = 3, label_text = ''destroyed''\<rparr>]
   \<and> label_int \<lparr>geom = point 256 256, label_int = 3, label_text = ''destroyed''\<rparr> \<in> {0, 1, 2, 3}
   \<and> ''collapsed'' \<notin> fst ` set DAMAP \<and> dict_get DAMAP ''collapsed'' 0 = 0"
proof -
  note ev = eventA_features
  from damage_taxonomy
  have parsed: "\<forall>L lf feats.
         load_wkt_features L lf = Inr feats
         \<longrightarrow> (\<forall>f\<in>set feats.
                label_int f = dict_get DAMAP (label_text f) 0 \<and> label_int f \<in> {0, 1, 2, 3})"
    and other: "\<forall>s. s \<notin> fst ` set DAMAP \<longrightarrow> dict_get DAMAP s 0 = 0"
    by blast+
  have notin: "''collapsed'' \<notin> fst ` set DAMAP" by (simp add: DAMAP_def)
  from parsed [rule_format, OF ev]
  have "label_int \<lparr>geom = point 256 256, label_int = 3, label_text = ''destroyed''\<rparr> \<in> {0, 1, 2, 3}"
    by simp
  with ev notin other [rule_format, OF notin] show ?thesis by blast
qed

text \<open>
  Claim C4 asks that \<^verbatim>\<open>load_wkt_features\<close> returns a list for every input and never
  raises. Two records for which it raises: \<^verbatim>\<open>{"features": {"lng_lat": null, "xy": []}}\<close>,
  where \<^verbatim>\<open>feats += None\<close> is a TypeError, and \<^verbatim>\<open>[{"properties": null, "wkt": ...}]\<close>, where
  \<^verbatim>\<open>props.get\<close> is an AttributeError. Neither statement stands inside a \<^verbatim>\<open>try\<close>.
\<close>

theorem load_wkt_features_raises:
  "load_wkt_features sample_lib
     (Inr (JObj [(''features'', JObj [(''lng_lat'', JNull), (''xy'', JArr [])])]))
   = Inl TypeError
   \<and> load_wkt_features sample_lib
       (Inr (JArr [JObj [(''properties'', JNull), (''wkt'', JStr ''POINT (10 10)'')]]))
     = Inl AttributeError"
  by (simp add: load_wkt_features_def feature_of_def dict_get_def)

section \<open>Windows and chips\<close>

lemma py_round_of_int: "py_round (of_int n) = n"
  by (simp add: py_round_def)

lemma py_round_numeral: "py_round (numeral n) = numeral n"
  using py_round_of_int [of "numeral n"] by simp

text \<open>
  The window of a building is always 128 by 128 and, on a raster at least that large,
  lies inside the raster; the array cut from it has as many channels as the raster has
  bands.
\<close>

lemma chip_window_size:
  "win_width (chip_window ds b) = 128 \<and> win_height (chip_window ds b) = 128"
  by (simp add: chip_window_def safe_window_centered_def CROP_SIZE_def Let_def)

lemma chip_window_inside:
  assumes "CROP_SIZE \<le> width ds" and "CROP_SIZE \<le> height ds"
  shows "0 \<le> col_off (chip_window ds b)
         \<and> col_off (chip_window ds b) + win_width (chip_window ds b) \<le> width ds
         \<and> 0 \<le> row_off (chip_window ds b)
         \<and> row_off (chip_window ds b) + win_height (chip_window ds b) \<le> height ds"
  using assms
  by (simp add: chip_window_def safe_window_centered_def CROP_SIZE_def Let_def max_def min_def)

lemma read_chip_shape:
  "\<exists>chip. read_chip ds b = Inr chip \<and> shape chip = [128, 128, count ds]"
  by (simp add: read_chip_def np_moveaxis_0_2_def ds_read_def ndim_def chip_window_size)

text \<open>The two windows of the specification's scenario.\<close>

lemma scenario_windows:
  "chip_window (tile 3) (feature_at 10 10)
   = \<lparr>col_off = 0, row_off = 0, win_width = 128, win_height = 128\<rparr>
   \<and> chip_window (tile 3) (feature_at 256 256)
     = \<lparr>col_off = 192, row_off = 192, win_width = 128, win_height = 128\<rparr>"
  by (simp add: chip_window_def safe_window_centered_def CROP_SIZE_def tile_def point_def
      feature_at_def identity_index_def py_round_of_int flip: of_int_diff)

text \<open>
  Claim C1 asks for a chip of 128 by 128 by 3 bytes whatever the building. On a raster with
  a single band the read has the three axes (1, 128, 128), \<^verbatim>\<open>np.moveaxis\<close> makes them
  (128, 128, 1), and the test \<^verbatim>\<open>chip.ndim==2\<close> that guards the replication to three
  channels is false: the array saved has one channel. On a raster with four bands it has
  four, where \<^verbatim>\<open>read_preview_gray\<close> reads the bands 1 to 3 only.
\<close>

theorem single_band_chip_shape:
  "(\<exists>chip. read_chip (tile 1) (feature_at 256 256) = Inr chip \<and> shape chip = [128, 128, 1])
   \<and> (\<exists>chip. read_chip (tile 4) (feature_at 256 256) = Inr chip \<and> shape chip = [128, 128, 4])"
  by (simp add: read_chip_def np_moveaxis_0_2_def ds_read_def ndim_def chip_window_size tile_def)

text \<open>
  Claim C2 asks for the window whose corner is the clamped (col - 64, row - 64).
  \<^verbatim>\<open>ds.index\<close> returns (row, col), and \<^verbatim>\<open>process_split\<close> hands the pair to
  \<^verbatim>\<open>safe_window_centered(col, row, ...)\<close> in that order. For a centroid in column 400 and
  row 100 of a 512 by 512 raster the window starts at column 36 and row 336; the window of
  the claim, the third equation, starts at column 336 and row 36.
\<close>

theorem chip_window_swaps_row_and_column:
  "index (tile 3) 400 100 = (100, 400)
   \<and> chip_window (tile 3) (feature_at 400 100)
     = \<lparr>col_off = 36, row_off = 336, win_width = 128, win_height = 128\<rparr>
   \<and> safe_window_centered 400 100 CROP_SIZE (width (tile 3)) (height (tile 3))
     = \<lparr>col_off = 336, row_off = 36, win_width = 128, win_height = 128\<rparr>"
proof -
  have "safe_window_centered (of_int 400) (of_int 100) 128 512 512
        = \<lparr>col_off = 336, row_off = 36, win_width = 128, win_height = 128\<rparr>"
    by (simp add: safe_window_centered_def py_round_numeral)
  then show ?thesis
    by (simp add: chip_window_def safe_window_centered_def CROP_SIZE_def tile_def point_def
      feature_at_def identity_index_def py_round_of_int flip: of_int_diff)
qed

section \<open>The shift of a pair\<close>

lemma estimate_shift_range:
  "estimate_shift L fs pre post = Inr (dx, dy)
   \<Longrightarrow> - 20 \<le> dx \<and> dx \<le> 20 \<and> - 20 \<le> dy \<and> dy \<le> 20"
  by (auto simp: estimate_shift_def np_clip_def Let_def MAX_SHIFT_PX_def split: sum.splits)

lemma pair_shift_range:
  "\<bar>fst (pair_shift L fs pre post)\<bar> \<le> 20 \<and> \<bar>snd (pair_shift L fs pre post)\<bar> \<le> 20"
proof (cases "estimate_shift L fs pre post")
  case (Inl e)
  then show ?thesis by (simp add: pair_shift_def)
next
  case (Inr sh)
  then have "estimate_shift L fs pre post = Inr (fst sh, snd sh)" by simp
  from estimate_shift_range [OF this] Inr show ?thesis
    by (simp add: pair_shift_def abs_le_iff)
qed

lemma pair_shift_fallback:
  "estimate_shift L fs pre post = Inl e \<Longrightarrow> pair_shift L fs pre post = (0, 0)"
  by (simp add: pair_shift_def)

text \<open>
  Claim C6. Both components of an estimate that \<^verbatim>\<open>estimate_shift\<close> returns lie in
  [-20, 20]; when the rasters are read and the registration returns a shift, the estimate
  is that shift times 4 clipped to the range, whatever its size; and the shift recorded
  for a pair, the estimate or (0, 0), lies in the range too.
\<close>

theorem shift_estimate_clamped:
  "(estimate_shift L fs pre post = Inr (dx, dy)
      \<longrightarrow> - 20 \<le> dx \<and> dx \<le> 20 \<and> - 20 \<le> dy \<and> dy \<le> 20)
   \<and> (read_preview_gray fs pre = Inr g_pre \<longrightarrow> read_preview_gray fs post = Inr g_post
      \<longrightarrow> phase_shift L g_pre g_post = Inr (dy0, dx0)
      \<longrightarrow> estimate_shift L fs pre post
          = Inr (min (max (dx0 * 4) (- 20)) 20, min (max (dy0 * 4) (- 20)) 20))
   \<and> \<bar>fst (pair_shift L fs pre post)\<bar> \<le> 20 \<and> \<bar>snd (pair_shift L fs pre post)\<bar> \<le> 20"
proof -
  have "read_preview_gray fs pre = Inr g_pre \<longrightarrow> read_preview_gray fs post = Inr g_post
      \<longrightarrow> phase_shift L g_pre g_post = Inr (dy0, dx0)
      \<longrightarrow> estimate_shift L fs pre post
          = Inr (min (max (dx0 * 4) (- 20)) 20, min (max (dy0 * 4) (- 20)) 20)"
    by (simp add: estimate_shift_def np_clip_def Let_def MAX_SHIFT_PX_def
        DOWNSAMPLE_FOR_SHIFT_def)
  with estimate_shift_range [of L fs pre post dx dy] pair_shift_range [of L fs pre post]
  show ?thesis by blast
qed

text \<open>A measured shift of (dy, dx) = (-7, 0.3) is recorded as dx = 1.2 and dy = -20.\<close>

theorem shift_estimate_clamped_witness:
  "estimate_shift sample_lib (rasters eventA) (''images'', ''eventA_pre_disaster.tif'')
     (''images'', ''eventA_post_disaster.tif'') = Inr (6 / 5, - 20)
   \<and> - 20 \<le> (6 / 5 :: rat) \<and> (6 / 5 :: rat) \<le> 20 \<and> - 20 \<le> (- 20 :: rat) \<and> (- 20 :: rat) \<le> 20"
proof -
  have ev: "estimate_shift sample_lib (rasters eventA) (''images'', ''eventA_pre_disaster.tif'')
     (''images'', ''eventA_post_disaster.tif'') = Inr (6 / 5, - 20)"
    by (simp add: estimate_shift_def read_preview_gray_def rasterio_open_def eventA_def
        tile_def sample_lib_def np_clip_def DOWNSAMPLE_FOR_SHIFT_def MAX_SHIFT_PX_def)
  from shift_estimate_clamped [of sample_lib "rasters eventA" "(''images'', ''eventA_pre_disaster.tif'')"
     "(''images'', ''eventA_post_disaster.tif'')" "6 / 5" "- 20"]
  have "estimate_shift sample_lib (rasters eventA) (''images'', ''eventA_pre_disaster.tif'')
     (''images'', ''eventA_post_disaster.tif'') = Inr (6 / 5, - 20)
      \<longrightarrow> - 20 \<le> (6 / 5 :: rat) \<and> (6 / 5 :: rat) \<le> 20 \<and> - 20 \<le> (- 20 :: rat) \<and> (- 20 :: rat) \<le> 20"
    by blast
  with ev show ?thesis by blast
qed

section \<open>The pairing of tiles\<close>

text \<open>
  Claim C7 asks that every stem with a pre and a post file is paired, whatever the case of
  the letters, and that a stem with one file only is left out. The post file is looked up
  under the name built from the stem, the lower-case marker and the suffix of the pre
  file as it is written: \<^verbatim>\<open>tile_pre_disaster.TIF\<close> beside \<^verbatim>\<open>tile_post_disaster.tif\<close> gives
  no pair. The glob that feeds the loop compares the marker byte for byte, so
  \<^verbatim>\<open>TILE_PRE_DISASTER.tif\<close>, which the pattern matches, is never tried. And the match does not ask which of \<^verbatim>\<open>pre\<close> and \<^verbatim>\<open>post\<close> group 2 holds: the
  single file \<^verbatim>\<open>a_pre_disaster.b_post_disaster.tif\<close> passes the glob, matches as the post
  file of the stem \<^verbatim>\<open>a_pre_disaster.b\<close>, and is paired with itself.
\<close>

theorem pair_resolver_misses_and_self_pairs:
  "pair_pre_post upper_case_extension (rglob_pre_disaster upper_case_extension) [] = []
   \<and> PAIR_RX_match ''TILE_PRE_DISASTER.tif'' = Some (''TILE'', ''pre'')
   \<and> pair_pre_post upper_case_marker (rglob_pre_disaster upper_case_marker) [] = []
   \<and> pair_pre_post lone_post_file (rglob_pre_disaster lone_post_file) []
     = [(''a_pre_disaster.b'',
         (''images'', ''a_pre_disaster.b_post_disaster.tif''),
         (''images'', ''a_pre_disaster.b_post_disaster.tif''))]"
  by code_simp

section \<open>The run over a split\<close>

lemma eventA_pairs:
  "resolve_pairs eventA
   = [(''eventA'', (''images'', ''eventA_pre_disaster.tif''),
                   (''images'', ''eventA_post_disaster.tif'')),
      (''eventB'', (''images'', ''eventB_pre_disaster.tif''),
                   (''images'', ''eventB_post_disaster.tif''))]"
  unfolding resolve_pairs_def eventA_def by code_simp

lemma eventA_bad_post_pairs: "resolve_pairs eventA_bad_post = resolve_pairs eventA"
  by (simp add: resolve_pairs_def eventA_bad_post_def)

lemma eventA_bad_post_estimate:
  "estimate_shift sample_lib (rasters eventA_bad_post) (''images'', ''eventA_pre_disaster.tif'')
     (''images'', ''eventA_post_disaster.tif'') = Inl RasterioIOError"
  by (simp add: estimate_shift_def read_preview_gray_def rasterio_open_def
      eventA_bad_post_def eventA_def tile_def)

lemma eventA_bad_post_aborts:
  "process_split sample_lib eventA_bad_post [] = Inl RasterioIOError"
proof -
  have lab: "label_files eventA_bad_post ''eventA_post_disaster.json'' = Some (Inr eventA_labels)"
    by (simp add: eventA_bad_post_def eventA_def)
  have opn: "rasterio_open (rasters eventA_bad_post) (''images'', ''eventA_post_disaster.tif'')
      = Inl RasterioIOError"
    by (simp add: rasterio_open_def eventA_bad_post_def)
  have root: "root_exists eventA_bad_post"
    by (simp add: eventA_bad_post_def eventA_def)
  show ?thesis
    by (simp add: process_split_def root eventA_bad_post_pairs eventA_pairs lab
        eventA_features opn)
qed

text \<open>
  Claim C5 asks that a pair whose shift estimate fails never stops the run and still gets
  its chips. When the estimate fails because the post-disaster tile cannot be opened, the
  exception is caught and the shift is (0, 0); the tile is then opened again for the
  chips (line 149), outside any \<^verbatim>\<open>try\<close>, and the exception leaves \<^verbatim>\<open>process_split\<close>.
\<close>

theorem unreadable_post_tile_aborts_split:
  "estimate_shift sample_lib (rasters eventA_bad_post) (''images'', ''eventA_pre_disaster.tif'')
     (''images'', ''eventA_post_disaster.tif'') = Inl RasterioIOError
   \<and> pair_shift sample_lib (rasters eventA_bad_post) (''images'', ''eventA_pre_disaster.tif'')
     (''images'', ''eventA_post_disaster.tif'') = (0, 0)
   \<and> process_split sample_lib eventA_bad_post [] = Inl RasterioIOError"
  using eventA_bad_post_estimate eventA_bad_post_aborts by (simp add: pair_shift_def)

section \<open>What a run changes\<close>

lemma apply_effect_nothing: "apply_effect [] [] [] st = st"
  by (simp add: apply_effect_def write_all_def)

lemma apply_effect_twice:
  "apply_effect s2 r2 w2 (apply_effect s1 r1 w1 st) = apply_effect (s1 @ s2) (r1 @ r2) (w1 @ w2) st"
  by (simp add: apply_effect_def write_all_def)

lemma last_decimal: "last (decimal n) = char_of (48 + n mod 10)"
  by (subst decimal.simps) simp

lemma decimal_not_empty: "decimal n \<noteq> []"
  by (subst decimal.simps) simp

lemma digit_not_s: "char_of (48 + n mod 10 :: nat) \<noteq> CHR ''s''"
proof
  assume "char_of (48 + n mod 10) = CHR ''s''"
  then have "of_char (char_of (48 + n mod 10) :: char) = (of_char CHR ''s'' :: nat)"
    by (rule arg_cong)
  moreover have "of_char (char_of (48 + n mod 10) :: char) = (48 + n mod 10) mod (256 :: nat)"
    by (rule of_char_of)
  moreover have "(of_char CHR ''s'' :: nat) = 115" by simp
  ultimately have eq: "(48 + n mod 10) mod 256 = (115 :: nat)" by (simp only:)
  have small: "n mod 10 < 10" by simp
  then have "48 + n mod 10 < 256" by linarith
  then have "(48 + n mod 10) mod 256 = 48 + n mod 10" by (rule mod_less)
  with eq small show False by linarith
qed

lemma chip_name_not_post_shifts: "chip_name stem i \<noteq> ''post_shifts.png''"
proof
  assume "chip_name stem i = ''post_shifts.png''"
  then have "(stem @ ''_b'' @ fmt_05d i) @ ''.png'' = ''post_shifts'' @ ''.png''"
    unfolding chip_name_def by (simp only: append_assoc append_Cons append_Nil)
  then have "stem @ ''_b'' @ fmt_05d i = ''post_shifts''"
    by (simp only: append_same_eq)
  then have "last (stem @ ''_b'' @ fmt_05d i) = last ''post_shifts''"
    by (rule arg_cong)
  moreover have "last ''post_shifts'' = CHR ''s''" by simp
  moreover have "last (stem @ ''_b'' @ fmt_05d i) = char_of (48 + i mod 10)"
    by (simp add: fmt_05d_def decimal_not_empty last_decimal)
  ultimately have "char_of (48 + i mod 10) = CHR ''s''"
    by (simp only:)
  then show False using digit_not_s by blast
qed

lemma with_suffix_json_not_png: "with_suffix name ''.json'' \<noteq> ''post_shifts.png''"
proof
  assume eq: "with_suffix name ''.json'' = ''post_shifts.png''"
  have "\<exists>x. with_suffix name ''.json'' = x @ ''.json''"
    by (cases "path_suffix name = []") (simp_all add: with_suffix_def)
  then obtain x where x: "with_suffix name ''.json'' = x @ ''.json''" ..
  have "x @ ''.json'' = ''post_shifts.png''"
    using eq unfolding x .
  then have "last (x @ ''.json'') = last ''post_shifts.png''"
    by (rule arg_cong)
  moreover have "last (x @ ''.json'') = CHR ''n''" by simp
  moreover have "last ''post_shifts.png'' = CHR ''g''" by simp
  ultimately have "CHR ''n'' = CHR ''g''" by (simp only:)
  then show False by simp
qed

lemma apply_effect_shift_update:
  "apply_effect shs rows ws (st\<lparr>shifts := AList.update k v (shifts st)\<rparr>)
   = apply_effect ((k, v) # shs) rows ws st"
  by (simp add: apply_effect_def)

lemma emit_chips_effect:
  "\<exists>rows ws. (\<forall>st. emit_chips ds spl stem sh i feats st = Inr (apply_effect [] rows ws st))
     \<and> (\<forall>r\<in>set rows. r ! 3 = JStr stem)
     \<and> (\<forall>w\<in>set ws. fst w \<noteq> ''post_shifts.png'')"
proof (induction feats arbitrary: i)
  case Nil
  have "\<forall>st. emit_chips ds spl stem sh i [] st = Inr (apply_effect [] [] [] st)"
    by (simp add: apply_effect_nothing)
  moreover have "\<forall>r\<in>set ([] :: json list list). r ! 3 = JStr stem" by simp
  moreover have "\<forall>w\<in>set ([] :: (string \<times> file_content) list). fst w \<noteq> ''post_shifts.png''"
    by simp
  ultimately show ?case by blast
next
  case (Cons b feats)
  obtain chip where chip: "read_chip ds b = Inr chip"
    using read_chip_shape by blast
  from Cons.IH [of "Suc i"] obtain rows ws where
    run: "\<forall>st. emit_chips ds spl stem sh (Suc i) feats st = Inr (apply_effect [] rows ws st)"
    and rows: "\<forall>r\<in>set rows. r ! 3 = JStr stem"
    and ws: "\<forall>w\<in>set ws. fst w \<noteq> ''post_shifts.png''"
    by blast
  let ?row = "manifest_row spl stem i sh b"
  let ?w = "[(chip_name stem i, PNG chip),
             (with_suffix (chip_name stem i) ''.json'', JSON (sidecar spl stem i sh b))]"
  have "\<forall>st. emit_chips ds spl stem sh i (b # feats) st
          = Inr (apply_effect [] (?row # rows) (?w @ ws) st)"
    by (simp add: chip run apply_effect_def write_all_def)
  moreover have "\<forall>r\<in>set (?row # rows). r ! 3 = JStr stem"
    using rows by (simp add: manifest_row_def)
  moreover have "\<forall>w\<in>set (?w @ ws). fst w \<noteq> ''post_shifts.png''"
    using ws chip_name_not_post_shifts [of stem i]
      with_suffix_json_not_png [of "chip_name stem i"]
    by (simp del: One_nat_def)
  ultimately show ?case by blast
qed

lemma process_pairs_effect:
  "(\<exists>e. \<forall>st. process_pairs L inp ps st = Inl e)
   \<or> (\<exists>shs rows ws.
        (\<forall>st. process_pairs L inp ps st = Inr (apply_effect shs rows ws st))
        \<and> map fst shs = map fst ps
        \<and> (\<forall>r\<in>set rows. \<exists>stem. r ! 3 = JStr stem \<and> stem \<in> fst ` set ps
               \<and> label_files inp (stem @ ''_post_disaster.json'') \<noteq> None)
        \<and> (\<forall>w\<in>set ws. fst w \<noteq> ''post_shifts.png''))"
  (is "?fails ps \<or> ?runs ps")
proof (induction ps)
  case Nil
  have "\<forall>st. process_pairs L inp [] st = Inr (apply_effect [] [] [] st)"
    by (simp add: apply_effect_nothing)
  moreover have "map fst ([] :: (string \<times> rat \<times> rat) list) = map fst ([] :: (string \<times> path \<times> path) list)"
    by simp
  moreover have "\<forall>r\<in>set ([] :: json list list). \<exists>stem. r ! 3 = JStr stem
       \<and> stem \<in> fst ` set ([] :: (string \<times> path \<times> path) list)
       \<and> label_files inp (stem @ ''_post_disaster.json'') \<noteq> None"
    by simp
  moreover have "\<forall>w\<in>set ([] :: (string \<times> file_content) list). fst w \<noteq> ''post_shifts.png''"
    by simp
  ultimately have "?runs []" by blast
  then show ?case ..
next
  case (Cons pr rest)
  define stem where "stem = fst pr"
  define post where "post = snd (snd pr)"
  define sh where "sh = pair_shift L (rasters inp) (fst (snd pr)) post"
  define lab where "lab = label_files inp (stem @ ''_post_disaster.json'')"
  have mono: "\<forall>r\<in>set rows. \<exists>s. r ! 3 = JStr s \<and> s \<in> fst ` set (pr # rest)
        \<and> label_files inp (s @ ''_post_disaster.json'') \<noteq> None"
    if "\<forall>r\<in>set rows. \<exists>s. r ! 3 = JStr s \<and> s \<in> fst ` set rest
        \<and> label_files inp (s @ ''_post_disaster.json'') \<noteq> None" for rows
  proof
    fix r assume "r \<in> set rows"
    with that obtain s where "r ! 3 = JStr s" and "s \<in> fst ` set rest"
      and "label_files inp (s @ ''_post_disaster.json'') \<noteq> None" by blast
    moreover from \<open>s \<in> fst ` set rest\<close> have "s \<in> fst ` set (pr # rest)" by auto
    ultimately show "\<exists>s. r ! 3 = JStr s \<and> s \<in> fst ` set (pr # rest)
        \<and> label_files inp (s @ ''_post_disaster.json'') \<noteq> None" by blast
  qed
  have after: "?fails (pr # rest) \<or> ?runs (pr # rest)"
    if step: "\<forall>st. process_pairs L inp (pr # rest) st
                = process_pairs L inp rest
                    (apply_effect [] rows1 ws1 (st\<lparr>shifts := AList.update stem sh (shifts st)\<rparr>))"
      and rows1: "\<forall>r\<in>set rows1. \<exists>s. r ! 3 = JStr s \<and> s \<in> fst ` set (pr # rest)
        \<and> label_files inp (s @ ''_post_disaster.json'') \<noteq> None"
      and ws1: "\<forall>w\<in>set ws1. fst w \<noteq> ''post_shifts.png''"
    for rows1 ws1
    using Cons.IH
  proof
    assume "?fails rest"
    then obtain e where "\<forall>st. process_pairs L inp rest st = Inl e" ..
    with step have "\<forall>st. process_pairs L inp (pr # rest) st = Inl e" by simp
    then show ?thesis by blast
  next
    assume "?runs rest"
    then obtain shs rows ws where
      run: "\<forall>st. process_pairs L inp rest st = Inr (apply_effect shs rows ws st)"
      and keys: "map fst shs = map fst rest"
      and rows: "\<forall>r\<in>set rows. \<exists>s. r ! 3 = JStr s \<and> s \<in> fst ` set rest
               \<and> label_files inp (s @ ''_post_disaster.json'') \<noteq> None"
      and ws: "\<forall>w\<in>set ws. fst w \<noteq> ''post_shifts.png''"
      by blast
    have "\<forall>st. process_pairs L inp (pr # rest) st
            = Inr (apply_effect ((stem, sh) # shs) (rows1 @ rows) (ws1 @ ws) st)"
      using step run
      by (simp add: apply_effect_twice apply_effect_shift_update)
    moreover have "map fst ((stem, sh) # shs) = map fst (pr # rest)"
      using keys by (simp add: stem_def)
    moreover have "\<forall>r\<in>set (rows1 @ rows). \<exists>s. r ! 3 = JStr s \<and> s \<in> fst ` set (pr # rest)
               \<and> label_files inp (s @ ''_post_disaster.json'') \<noteq> None"
      using rows1 mono [OF rows] by (simp add: ball_Un)
    moreover have "\<forall>w\<in>set (ws1 @ ws). fst w \<noteq> ''post_shifts.png''"
      using ws1 ws by (simp add: ball_Un)
    ultimately have "?runs (pr # rest)" by blast
    then show ?thesis ..
  qed
  have skip: "?fails (pr # rest) \<or> ?runs (pr # rest)"
    if "\<forall>st. process_pairs L inp (pr # rest) st
          = process_pairs L inp rest (st\<lparr>shifts := AList.update stem sh (shifts st)\<rparr>)"
  proof (rule after [of "[]" "[]"])
    show "\<forall>st. process_pairs L inp (pr # rest) st
                = process_pairs L inp rest
                    (apply_effect [] [] [] (st\<lparr>shifts := AList.update stem sh (shifts st)\<rparr>))"
      using that by (simp add: apply_effect_nothing)
  qed simp_all
  show ?case
  proof (cases lab)
    case None
    then have "\<forall>st. process_pairs L inp (pr # rest) st
          = process_pairs L inp rest (st\<lparr>shifts := AList.update stem sh (shifts st)\<rparr>)"
      by (simp add: Let_def stem_def sh_def lab_def post_def)
    then show ?thesis by (rule skip)
  next
    case (Some lf)
    show ?thesis
    proof (cases "load_wkt_features L lf")
      case (Inl e)
      with Some have "\<forall>st. process_pairs L inp (pr # rest) st = Inl e"
        by (simp add: Let_def stem_def lab_def)
      then show ?thesis by blast
    next
      case (Inr feats)
      show ?thesis
      proof (cases "feats = []")
        case True
        with Some Inr have "\<forall>st. process_pairs L inp (pr # rest) st
            = process_pairs L inp rest (st\<lparr>shifts := AList.update stem sh (shifts st)\<rparr>)"
          by (simp add: Let_def stem_def sh_def lab_def post_def)
        then show ?thesis by (rule skip)
      next
        case False
        show ?thesis
        proof (cases "rasterio_open (rasters inp) post")
          case (Inl e)
          with Some \<open>load_wkt_features L lf = Inr feats\<close> False
          have "\<forall>st. process_pairs L inp (pr # rest) st = Inl e"
            by (simp add: Let_def stem_def lab_def post_def)
          then show ?thesis by blast
        next
          case opened: (Inr ds)
          from emit_chips_effect [of ds "split_name inp" stem sh 0 feats]
          obtain rows1 ws1 where
            emit: "\<forall>st. emit_chips ds (split_name inp) stem sh 0 feats st
                     = Inr (apply_effect [] rows1 ws1 st)"
            and rows1: "\<forall>r\<in>set rows1. r ! 3 = JStr stem"
            and ws1: "\<forall>w\<in>set ws1. fst w \<noteq> ''post_shifts.png''"
            by blast
          have step: "\<forall>st. process_pairs L inp (pr # rest) st
                = process_pairs L inp rest
                    (apply_effect [] rows1 ws1 (st\<lparr>shifts := AList.update stem sh (shifts st)\<rparr>))"
            using Some Inr False opened emit
            by (simp add: Let_def stem_def sh_def lab_def post_def)
          have "\<forall>r\<in>set rows1. \<exists>s. r ! 3 = JStr s \<and> s \<in> fst ` set (pr # rest)
              \<and> label_files inp (s @ ''_post_disaster.json'') \<noteq> None"
          proof
            fix r assume "r \<in> set rows1"
            with rows1 have "r ! 3 = JStr stem" by blast
            moreover have "stem \<in> fst ` set (pr # rest)" by (simp add: stem_def)
            moreover have "label_files inp (stem @ ''_post_disaster.json'') \<noteq> None"
              using Some by (simp add: lab_def)
            ultimately show "\<exists>s. r ! 3 = JStr s \<and> s \<in> fst ` set (pr # rest)
              \<and> label_files inp (s @ ''_post_disaster.json'') \<noteq> None" by blast
          qed
          with step show ?thesis using ws1 by (rule after)
        qed
      qed
    qed
  qed
qed

lemma update_fresh: "k \<notin> fst ` set al \<Longrightarrow> AList.update k v al = al @ [(k, v)]"
  by (induction al) auto

lemma fold_update_fresh:
  "distinct (map fst shs) \<Longrightarrow> fst ` set shs \<inter> fst ` set acc = {}
   \<Longrightarrow> fold (\<lambda>e. AList.update (fst e) (snd e)) shs acc = acc @ shs"
proof (induction shs arbitrary: acc)
  case Nil
  then show ?case by simp
next
  case (Cons e shs)
  have "fst e \<notin> fst ` set acc" using Cons.prems(2) by auto
  then have upd: "AList.update (fst e) (snd e) acc = acc @ [e]"
    by (simp add: update_fresh)
  have "fold (\<lambda>e. AList.update (fst e) (snd e)) shs (acc @ [e]) = (acc @ [e]) @ shs"
  proof (rule Cons.IH)
    show "distinct (map fst shs)" using Cons.prems(1) by simp
    show "fst ` set shs \<inter> fst ` set (acc @ [e]) = {}" using Cons.prems by auto
  qed
  then show ?case by (simp add: upd)
qed

lemma pair_pre_post_distinct:
  "distinct (map fst pairs) \<Longrightarrow> distinct (map fst (pair_pre_post tree ps pairs))"
proof (induction ps arbitrary: pairs)
  case Nil
  then show ?case by simp
next
  case (Cons p ps)
  show ?case
  proof (cases "PAIR_RX_match (snd p)")
    case None
    with Cons show ?thesis by simp
  next
    case (Some m)
    have "distinct (map fst (AList.update (fst m) v pairs))" for v
      using Cons.prems by (rule distinct_update)
    with Some Cons show ?thesis by (simp add: Let_def)
  qed
qed

lemma resolve_pairs_distinct: "distinct (map fst (resolve_pairs inp))"
  by (simp add: resolve_pairs_def pair_pre_post_distinct)


lemma map_of_write_all: "map_of (write_all ws d) = map_of d ++ map_of (rev ws)"
proof (induction ws arbitrary: d)
  case Nil
  show ?case by (simp add: write_all_def)
next
  case (Cons w ws)
  have "map_of (write_all (w # ws) d) = map_of (write_all ws (write_file (fst w) (snd w) d))"
    by (simp add: write_all_def)
  also have "\<dots> = map_of (write_file (fst w) (snd w) d) ++ map_of (rev ws)"
    by (rule Cons.IH)
  also have "\<dots> = (map_of d)(fst w \<mapsto> snd w) ++ map_of (rev ws)"
    by (simp add: write_file_def update_conv')
  also have "\<dots> = map_of d ++ map_of (rev (w # ws))"
    by (cases w) (simp add: fun_eq_iff map_add_def split: option.splits)
  finally show ?case .
qed

lemma write_all_twice: "map_of (write_all ws (write_all ws d)) = map_of (write_all ws d)"
  by (simp add: map_of_write_all fun_eq_iff map_add_def split: option.splits)

lemma exists_write_all: "exists (write_all ws d) n \<longleftrightarrow> exists d n \<or> n \<in> fst ` set ws"
proof -
  have "dom (map_of (write_all ws d)) = dom (map_of d) \<union> fst ` set ws"
    by (simp add: map_of_write_all dom_map_of_conv_image_fst Un_commute)
  then have "n \<in> dom (map_of (write_all ws d)) \<longleftrightarrow> n \<in> dom (map_of d) \<or> n \<in> fst ` set ws"
    by simp
  then show ?thesis by (simp add: exists_def domIff)
qed

lemma process_split_run:
  assumes "process_split L inp out = Inr fin" and "root_exists inp"
  shows "\<exists>ws. (\<forall>out0. process_split L inp out0
                  = Inr \<lparr>shifts = shifts fin, manifest = manifest fin,
                         out_files = write_all ws out0\<rparr>)
     \<and> (\<forall>w\<in>set ws. fst w \<noteq> ''post_shifts.png'')
     \<and> map fst (shifts fin) = map fst (resolve_pairs inp)
     \<and> (\<forall>r\<in>set (manifest fin). \<exists>s. r ! 3 = JStr s \<and> s \<in> fst ` set (resolve_pairs inp)
           \<and> label_files inp (s @ ''_post_disaster.json'') \<noteq> None)
     \<and> map_of (out_files fin) ''post_shifts.json'' = Some (JSON (shifts_json (shifts fin)))"
  using process_pairs_effect [of L inp "resolve_pairs inp"]
proof
  assume "\<exists>e. \<forall>st. process_pairs L inp (resolve_pairs inp) st = Inl e"
  then obtain e where "\<forall>st. process_pairs L inp (resolve_pairs inp) st = Inl e" ..
  with assms have False by (simp add: process_split_def)
  then show ?thesis ..
next
  assume "\<exists>shs rows ws.
        (\<forall>st. process_pairs L inp (resolve_pairs inp) st = Inr (apply_effect shs rows ws st))
        \<and> map fst shs = map fst (resolve_pairs inp)
        \<and> (\<forall>r\<in>set rows. \<exists>stem. r ! 3 = JStr stem \<and> stem \<in> fst ` set (resolve_pairs inp)
               \<and> label_files inp (stem @ ''_post_disaster.json'') \<noteq> None)
        \<and> (\<forall>w\<in>set ws. fst w \<noteq> ''post_shifts.png'')"
  then obtain shs rows ws where
    run: "\<forall>st. process_pairs L inp (resolve_pairs inp) st = Inr (apply_effect shs rows ws st)"
    and keys: "map fst shs = map fst (resolve_pairs inp)"
    and rows: "\<forall>r\<in>set rows. \<exists>stem. r ! 3 = JStr stem \<and> stem \<in> fst ` set (resolve_pairs inp)
               \<and> label_files inp (stem @ ''_post_disaster.json'') \<noteq> None"
    and ws: "\<forall>w\<in>set ws. fst w \<noteq> ''post_shifts.png''"
    by blast
  have "distinct (map fst shs)" using keys resolve_pairs_distinct [of inp] by simp
  then have shs: "fold (\<lambda>e. AList.update (fst e) (snd e)) shs [] = shs"
    using fold_update_fresh [of shs "[]"] by simp
  define fw where "fw = (''post_shifts.json'', JSON (shifts_json shs))
      # (if rows \<noteq> [] then [(''manifest.csv'', CSV manifest_header rows)] else [])"
  have every: "process_split L inp out0
      = Inr \<lparr>shifts = shs, manifest = rows, out_files = write_all (ws @ fw) out0\<rparr>" for out0
    using assms(2) run
    by (simp add: process_split_def apply_effect_def shs fw_def write_all_def)
  from every [of out] assms(1)
  have fin: "fin = \<lparr>shifts = shs, manifest = rows, out_files = write_all (ws @ fw) out\<rparr>"
    by simp
  have "\<forall>out0. process_split L inp out0
      = Inr \<lparr>shifts = shifts fin, manifest = manifest fin, out_files = write_all (ws @ fw) out0\<rparr>"
    using every by (simp add: fin)
  moreover have "\<forall>w\<in>set (ws @ fw). fst w \<noteq> ''post_shifts.png''"
    using ws by (simp add: fw_def ball_Un)
  moreover have "map fst (shifts fin) = map fst (resolve_pairs inp)"
    using keys by (simp add: fin)
  moreover have "\<forall>r\<in>set (manifest fin). \<exists>s. r ! 3 = JStr s
       \<and> s \<in> fst ` set (resolve_pairs inp)
       \<and> label_files inp (s @ ''_post_disaster.json'') \<noteq> None"
    using rows by (simp add: fin)
  moreover have "map_of (out_files fin) ''post_shifts.json'' = Some (JSON (shifts_json (shifts fin)))"
    by (simp add: fin fw_def write_all_def write_file_def update_conv')
  ultimately show ?thesis by blast
qed

lemma eventA_returns: "\<exists>fin. process_split sample_lib eventA [] = Inr fin"
proof -
  have root: "root_exists eventA" by (simp add: eventA_def)
  have labA: "label_files eventA ''eventA_post_disaster.json'' = Some (Inr eventA_labels)"
    by (simp add: eventA_def)
  have labB: "label_files eventA ''eventB_post_disaster.json'' = None"
    by (simp add: eventA_def)
  have opn: "rasterio_open (rasters eventA) (''images'', ''eventA_post_disaster.tif'') = Inr (tile 3)"
    by (simp add: rasterio_open_def eventA_def)
  have chip: "\<exists>c. read_chip ds b = Inr c" for ds b
    using read_chip_shape [of ds b] by blast
  obtain c1 where c1: "read_chip (tile 3) \<lparr>geom = point 10 10, label_int = 1, label_text = ''minor-damage''\<rparr> = Inr c1"
    using chip by blast
  obtain c2 where c2: "read_chip (tile 3) \<lparr>geom = point 256 256, label_int = 3, label_text = ''destroyed''\<rparr> = Inr c2"
    using chip by blast
  show ?thesis
    by (simp add: process_split_def root eventA_pairs labA labB eventA_features opn c1 c2 Let_def)
qed

section \<open>Pairs without labels, repeated runs\<close>





text \<open>
  Claim C9. A second run over the same input, started on the output directory that the
  first run left, returns as well, with the same shift log (dx and dy of every stem), the
  same manifest rows, and the same content under every file name of the output
  directory: chips, sidecars, the shift log and the manifest are written again with what
  they held. The estimate of a shift is a function of the two rasters.
\<close>

theorem rerun_is_identical:
  assumes "process_split L inp out = Inr fin"
  shows "\<exists>fin'. process_split L inp (out_files fin) = Inr fin'
           \<and> shifts fin' = shifts fin \<and> manifest fin' = manifest fin
           \<and> map_of (out_files fin') = map_of (out_files fin)"
proof (cases "root_exists inp")
  case False
  with assms have "fin = \<lparr>shifts = [], manifest = [], out_files = out\<rparr>"
    by (simp add: process_split_def)
  with False have "process_split L inp (out_files fin) = Inr fin"
    by (simp add: process_split_def)
  then show ?thesis by blast
next
  case True
  from process_split_run [OF assms True] obtain ws where
    every: "\<forall>out0. process_split L inp out0
              = Inr \<lparr>shifts = shifts fin, manifest = manifest fin,
                     out_files = write_all ws out0\<rparr>"
    by blast
  from every assms have first: "out_files fin = write_all ws out"
    by (metis Inr_inject split_state.select_convs(3))
  let ?fin' = "\<lparr>shifts = shifts fin, manifest = manifest fin,
                 out_files = write_all ws (out_files fin)\<rparr>"
  have "process_split L inp (out_files fin) = Inr ?fin'" using every by blast
  moreover have "map_of (out_files ?fin') = map_of (out_files fin)"
    by (simp add: first write_all_twice)
  ultimately show ?thesis by (intro exI [of _ ?fin']) simp
qed

theorem rerun_is_identical_witness:
  "\<exists>fin fin'. process_split sample_lib eventA [] = Inr fin
     \<and> process_split sample_lib eventA (out_files fin) = Inr fin'
     \<and> shifts fin' = shifts fin \<and> manifest fin' = manifest fin
     \<and> map_of (out_files fin') = map_of (out_files fin)"
proof -
  from eventA_returns obtain fin where run: "process_split sample_lib eventA [] = Inr fin" ..
  from rerun_is_identical [OF run] obtain fin' where
    "process_split sample_lib eventA (out_files fin) = Inr fin'
     \<and> shifts fin' = shifts fin \<and> manifest fin' = manifest fin
     \<and> map_of (out_files fin') = map_of (out_files fin)" ..
  with run have "process_split sample_lib eventA [] = Inr fin
     \<and> process_split sample_lib eventA (out_files fin) = Inr fin'
     \<and> shifts fin' = shifts fin \<and> manifest fin' = manifest fin
     \<and> map_of (out_files fin') = map_of (out_files fin)" by (rule conjI)
  then show ?thesis by (intro exI)
qed

section \<open>The catalog\<close>

lemma catalog_rows_origin:
  "row \<in> set (catalog_rows d scs acc)
   \<Longrightarrow> row \<in> set acc \<or> (\<exists>sc\<in>set scs. sidecar_row d sc = Some row)"
proof (induction scs arbitrary: acc)
  case Nil
  then show ?case by simp
next
  case (Cons sc scs)
  show ?case
  proof (cases "sidecar_row d sc")
    case None
    with Cons.prems have "row \<in> set (catalog_rows d scs acc)" by simp
    from Cons.IH [OF this] show ?thesis by auto
  next
    case (Some r)
    with Cons.prems have "row \<in> set (catalog_rows d scs (acc @ [r]))" by simp
    from Cons.IH [OF this] Some show ?thesis by auto
  qed
qed

lemma sidecar_row_Some:
  assumes "sidecar_row d sc = Some row"
  shows "\<exists>meta. snd sc = JSON (JObj meta)
           \<and> truthy (dict_get meta ''image_path'' JNull)
           \<and> hd row = dict_get meta ''image_path'' JNull
           \<and> exists d (with_suffix (fst sc) ''.png'')"
proof (cases "snd sc")
  case (JSON j)
  show ?thesis
  proof (cases j)
    case (JObj meta)
    with JSON assms show ?thesis
      by (auto simp: sidecar_row_def Let_def split: if_splits)
  qed (use JSON assms in \<open>simp_all add: sidecar_row_def\<close>)
qed (use assms in \<open>simp_all add: sidecar_row_def\<close>)

lemma set_glob_json: "set (glob_json d) = {sc \<in> set d. endswith (fst sc) ''.json''}"
  by (simp add: glob_json_def)

lemma with_suffix_post_shifts: "with_suffix ''post_shifts.json'' ''.png'' = ''post_shifts.png''"
  by code_simp

lemma shifts_json_no_key:
  "k \<notin> fst ` set shs \<Longrightarrow> shifts_json shs = JObj meta \<Longrightarrow> dict_get meta k JNull = JNull"
proof -
  assume k: "k \<notin> fst ` set shs" and "shifts_json shs = JObj meta"
  then have meta: "meta = map (\<lambda>e. (fst e, JObj [(''dx'', JFloat (fst (snd e))),
      (''dy'', JFloat (snd (snd e)))])) shs"
    by (simp add: shifts_json_def)
  have "fst ` set meta = fst ` set shs" by (force simp: meta)
  with k have "map_of meta k = None" by (simp add: map_of_eq_None_iff)
  then show ?thesis by (simp add: dict_get_def)
qed


lemma not_among_names: "\<forall>w\<in>set ws. fst w \<noteq> n \<Longrightarrow> n \<notin> fst ` set ws"
  by auto

lemma catalog_built:
  "build_catalog_for_split (Some d)
   = (if catalog_rows d (glob_json d) [] = [] then Some d
      else Some (write_file ''catalog.csv''
                   (CSV catalog_header (catalog_rows d (glob_json d) [])) d))"
  by (cases "glob_json d = []") (simp_all add: build_catalog_for_split_def Let_def)

lemma catalog_rows_sidecars:
  "\<forall>row\<in>set (catalog_rows d (glob_json d) []).
     \<exists>name meta. (name, JSON (JObj meta)) \<in> set d \<and> endswith name ''.json''
       \<and> sidecar_row d (name, JSON (JObj meta)) = Some row
       \<and> truthy (dict_get meta ''image_path'' JNull)
       \<and> hd row = dict_get meta ''image_path'' JNull
       \<and> exists d (with_suffix name ''.png'')"
proof
  fix row assume "row \<in> set (catalog_rows d (glob_json d) [])"
  from catalog_rows_origin [OF this] obtain sc where
    sc: "sc \<in> set (glob_json d)" and row: "sidecar_row d sc = Some row" by auto
  from sidecar_row_Some [OF row] obtain meta where
    meta: "snd sc = JSON (JObj meta)"
    and img: "truthy (dict_get meta ''image_path'' JNull)"
      "hd row = dict_get meta ''image_path'' JNull"
      "exists d (with_suffix (fst sc) ''.png'')"
    by blast
  from meta have eq: "sc = (fst sc, JSON (JObj meta))" by (cases sc) simp
  from sc have "sc \<in> set d" and ends: "endswith (fst sc) ''.json''"
    by (simp_all add: set_glob_json)
  with eq have mem: "(fst sc, JSON (JObj meta)) \<in> set d" by simp
  from row eq have srow: "sidecar_row d (fst sc, JSON (JObj meta)) = Some row" by simp
  from mem ends srow img
  have "(fst sc, JSON (JObj meta)) \<in> set d \<and> endswith (fst sc) ''.json''
         \<and> sidecar_row d (fst sc, JSON (JObj meta)) = Some row
         \<and> truthy (dict_get meta ''image_path'' JNull)
         \<and> hd row = dict_get meta ''image_path'' JNull
         \<and> exists d (with_suffix (fst sc) ''.png'')"
    by (intro conjI)
  then show "\<exists>name meta. (name, JSON (JObj meta)) \<in> set d \<and> endswith name ''.json''
         \<and> sidecar_row d (name, JSON (JObj meta)) = Some row
         \<and> truthy (dict_get meta ''image_path'' JNull)
         \<and> hd row = dict_get meta ''image_path'' JNull
         \<and> exists d (with_suffix name ''.png'')"
    by (intro exI)
qed

lemma shift_log_no_row:
  assumes run: "process_split L inp out = Inr fin" and root: "root_exists inp"
    and clean: "''image_path'' \<notin> fst ` set (resolve_pairs inp) \<or> \<not> exists out ''post_shifts.png''"
  shows "map_of (out_files fin) ''post_shifts.json'' = Some (JSON (shifts_json (shifts fin)))
         \<and> sidecar_row (out_files fin) (''post_shifts.json'', JSON (shifts_json (shifts fin)))
           = None"
proof -
  from process_split_run [OF run root] obtain ws where
    every: "\<forall>out0. process_split L inp out0
            = Inr \<lparr>shifts = shifts fin, manifest = manifest fin,
                   out_files = write_all ws out0\<rparr>"
    and names: "\<forall>w\<in>set ws. fst w \<noteq> ''post_shifts.png''"
    and keys: "map fst (shifts fin) = map fst (resolve_pairs inp)"
    and logged: "map_of (out_files fin) ''post_shifts.json''
               = Some (JSON (shifts_json (shifts fin)))"
    by blast
  from every run have first: "out_files fin = write_all ws out"
    by (metis Inr_inject split_state.select_convs(3))
  obtain meta where meta: "shifts_json (shifts fin) = JObj meta"
    by (simp add: shifts_json_def)
  from clean have "sidecar_row (out_files fin) (''post_shifts.json'', JSON (JObj meta)) = None"
  proof (rule disjE)
    assume absent: "''image_path'' \<notin> fst ` set (resolve_pairs inp)"
    have "set (map fst (shifts fin)) = set (map fst (resolve_pairs inp))"
      by (simp only: keys)
    then have "fst ` set (shifts fin) = fst ` set (resolve_pairs inp)" by simp
    with absent have "''image_path'' \<notin> fst ` set (shifts fin)" by simp
    from shifts_json_no_key [OF this meta]
    have "dict_get meta ''image_path'' JNull = JNull" .
    then have "\<not> truthy (dict_get meta ''image_path'' JNull)" by (simp add: truthy_def)
    then show ?thesis by (simp add: sidecar_row_def Let_def)
  next
    assume "\<not> exists out ''post_shifts.png''"
    moreover from names have "''post_shifts.png'' \<notin> fst ` set ws"
      by (rule not_among_names)
    ultimately have "\<not> (exists out ''post_shifts.png'' \<or> ''post_shifts.png'' \<in> fst ` set ws)"
      by simp
    then have "\<not> exists (write_all ws out) ''post_shifts.png''"
      by (simp add: exists_write_all)
    then have "\<not> exists (out_files fin) (with_suffix ''post_shifts.json'' ''.png'')"
      by (simp add: with_suffix_post_shifts first)
    then show ?thesis by (simp add: sidecar_row_def Let_def)
  qed
  with logged meta show ?thesis by simp
qed

lemma image_path_tiles_pairs:
  "resolve_pairs image_path_tiles
   = [(''image_path'', (''images'', ''image_path_pre_disaster.tif''),
                       (''images'', ''image_path_post_disaster.tif''))]"
  unfolding resolve_pairs_def image_path_tiles_def by code_simp

lemma image_path_tiles_run:
  "process_split sample_lib image_path_tiles stray_png
   = Inr \<lparr>shifts = [(''image_path'', 6 / 5, - 20)], manifest = [], out_files = image_path_dir\<rparr>"
proof -
  have root: "root_exists image_path_tiles" by (simp add: image_path_tiles_def)
  have lab: "label_files image_path_tiles n = None" for n
    by (simp add: image_path_tiles_def)
  have sh: "pair_shift sample_lib (rasters image_path_tiles)
      (''images'', ''image_path_pre_disaster.tif'') (''images'', ''image_path_post_disaster.tif'')
      = (6 / 5, - 20)"
    by (simp add: pair_shift_def estimate_shift_def read_preview_gray_def rasterio_open_def
        image_path_tiles_def tile_def sample_lib_def np_clip_def DOWNSAMPLE_FOR_SHIFT_def
        MAX_SHIFT_PX_def)
  show ?thesis
    by (simp add: process_split_def root image_path_tiles_pairs lab sh shifts_json_def
        write_file_def stray_png_def image_path_dir_def image_path_log_def)
qed

lemma image_path_dir_rows:
  "catalog_rows image_path_dir (glob_json image_path_dir) []
   = [[JObj [(''dx'', JFloat (6 / 5)), (''dy'', JFloat (- 20))], JNull, JStr ''unknown'',
       JStr [], JStr [], JStr [], JInt 0]]"
  by code_simp

text \<open>
  Claim C10 says that \<^verbatim>\<open>post_shifts.json\<close> never gives a row of the catalog, having no
  \<^verbatim>\<open>image_path\<close> field. The shift log is keyed by the stems of the tiles: with the tiles
  \<^verbatim>\<open>image_path_pre_disaster.tif\<close> and \<^verbatim>\<open>image_path_post_disaster.tif\<close> it has that field,
  and when the output directory holds a file \<^verbatim>\<open>post_shifts.png\<close> the test of line 58
  passes and the catalog gets a row made from the shift log.
\<close>

theorem catalog_rows_have_image_counterexample:
  "process_split sample_lib image_path_tiles stray_png
   = Inr \<lparr>shifts = [(''image_path'', 6 / 5, - 20)], manifest = [], out_files = image_path_dir\<rparr>
   \<and> map_of image_path_dir ''post_shifts.json'' = Some (JSON image_path_log)
   \<and> sidecar_row image_path_dir (''post_shifts.json'', JSON image_path_log)
     = Some [JObj [(''dx'', JFloat (6 / 5)), (''dy'', JFloat (- 20))], JNull, JStr ''unknown'',
             JStr [], JStr [], JStr [], JInt 0]
   \<and> catalog_rows image_path_dir (glob_json image_path_dir) []
     = [[JObj [(''dx'', JFloat (6 / 5)), (''dy'', JFloat (- 20))], JNull, JStr ''unknown'',
         JStr [], JStr [], JStr [], JInt 0]]
   \<and> build_catalog_for_split (Some image_path_dir)
     = Some (write_file ''catalog.csv''
               (CSV catalog_header
                  [[JObj [(''dx'', JFloat (6 / 5)), (''dy'', JFloat (- 20))], JNull,
                    JStr ''unknown'', JStr [], JStr [], JStr [], JInt 0]])
               image_path_dir)"
proof -
  have held: "map_of image_path_dir ''post_shifts.json'' = Some (JSON image_path_log)"
    by (simp add: image_path_dir_def)
  have row: "sidecar_row image_path_dir (''post_shifts.json'', JSON image_path_log)
     = Some [JObj [(''dx'', JFloat (6 / 5)), (''dy'', JFloat (- 20))], JNull, JStr ''unknown'',
             JStr [], JStr [], JStr [], JInt 0]"
    by (simp add: sidecar_row_def image_path_log_def image_path_dir_def dict_get_def
        truthy_def exists_def with_suffix_post_shifts)
  have built: "build_catalog_for_split (Some image_path_dir)
     = Some (write_file ''catalog.csv''
               (CSV catalog_header
                  [[JObj [(''dx'', JFloat (6 / 5)), (''dy'', JFloat (- 20))], JNull,
                    JStr ''unknown'', JStr [], JStr [], JStr [], JInt 0]])
               image_path_dir)"
    by (simp add: catalog_built image_path_dir_rows)
  from image_path_tiles_run held row image_path_dir_rows built show ?thesis
    by (intro conjI)
qed

text \<open>
  Claim C10, with the condition it needs. \<^verbatim>\<open>build_catalog_for_split\<close> writes the rows that
  the loop over the sidecars collects. Every row comes from a file \<^verbatim>\<open>*.json\<close> of the
  directory that holds a JSON object whose \<^verbatim>\<open>image_path\<close> is neither missing nor empty (it
  is the first column of the row) and whose sibling \<^verbatim>\<open>.png\<close> is in the directory. After a
  run of \<^verbatim>\<open>process_split\<close> over an existing split that returns, \<^verbatim>\<open>post_shifts.json\<close> holds
  the shift log, an object keyed by the stems: it gives no row when no stem is the word
  \<^verbatim>\<open>image_path\<close>, for then it has no such field, and it gives no row when the directory
  held no \<^verbatim>\<open>post_shifts.png\<close> before the run, for the run writes none.
\<close>

theorem catalog_rows_have_image:
  "build_catalog_for_split (Some d)
   = (if catalog_rows d (glob_json d) [] = [] then Some d
      else Some (write_file ''catalog.csv''
                   (CSV catalog_header (catalog_rows d (glob_json d) [])) d))
   \<and> (\<forall>row\<in>set (catalog_rows d (glob_json d) []).
         \<exists>name meta. (name, JSON (JObj meta)) \<in> set d \<and> endswith name ''.json''
           \<and> sidecar_row d (name, JSON (JObj meta)) = Some row
           \<and> truthy (dict_get meta ''image_path'' JNull)
           \<and> hd row = dict_get meta ''image_path'' JNull
           \<and> exists d (with_suffix name ''.png''))
   \<and> (process_split L inp out = Inr fin \<longrightarrow> root_exists inp
        \<longrightarrow> ''image_path'' \<notin> fst ` set (resolve_pairs inp) \<or> \<not> exists out ''post_shifts.png''
        \<longrightarrow> map_of (out_files fin) ''post_shifts.json'' = Some (JSON (shifts_json (shifts fin)))
            \<and> sidecar_row (out_files fin) (''post_shifts.json'', JSON (shifts_json (shifts fin)))
              = None)"
proof (intro conjI impI)
  show "build_catalog_for_split (Some d)
   = (if catalog_rows d (glob_json d) [] = [] then Some d
      else Some (write_file ''catalog.csv''
                   (CSV catalog_header (catalog_rows d (glob_json d) [])) d))"
    by (rule catalog_built)
  show "\<forall>row\<in>set (catalog_rows d (glob_json d) []).
         \<exists>name meta. (name, JSON (JObj meta)) \<in> set d \<and> endswith name ''.json''
           \<and> sidecar_row d (name, JSON (JObj meta)) = Some row
           \<and> truthy (dict_get meta ''image_path'' JNull)
           \<and> hd row = dict_get meta ''image_path'' JNull
           \<and> exists d (with_suffix name ''.png'')"
    by (rule catalog_rows_sidecars)
next
  assume "process_split L inp out = Inr fin" and "root_exists inp"
    and "''image_path'' \<notin> fst ` set (resolve_pairs inp) \<or> \<not> exists out ''post_shifts.png''"
  then have both: "map_of (out_files fin) ''post_shifts.json'' = Some (JSON (shifts_json (shifts fin)))
         \<and> sidecar_row (out_files fin) (''post_shifts.json'', JSON (shifts_json (shifts fin)))
           = None"
    by (rule shift_log_no_row)
  from both show "map_of (out_files fin) ''post_shifts.json''
      = Some (JSON (shifts_json (shifts fin)))" ..
  from both show "sidecar_row (out_files fin)
      (''post_shifts.json'', JSON (shifts_json (shifts fin))) = None" ..
qed

lemma chips_dir_rows:
  "catalog_rows chips_dir (glob_json chips_dir) []
   = [[JStr ''chips_post/hold/eventA_b00000.png'', JInt 1, JStr ''minor-damage'', JStr [], JStr [],
       JStr ''eventA'', JInt 0]]"
  by code_simp

theorem catalog_rows_have_image_witness:
  "catalog_rows chips_dir (glob_json chips_dir) []
   = [[JStr ''chips_post/hold/eventA_b00000.png'', JInt 1, JStr ''minor-damage'', JStr [], JStr [],
       JStr ''eventA'', JInt 0]]
   \<and> (\<exists>name meta. (name, JSON (JObj meta)) \<in> set chips_dir \<and> endswith name ''.json''
         \<and> truthy (dict_get meta ''image_path'' JNull)
         \<and> dict_get meta ''image_path'' JNull = JStr ''chips_post/hold/eventA_b00000.png''
         \<and> exists chips_dir (with_suffix name ''.png''))
   \<and> (\<exists>fin. process_split sample_lib eventA [] = Inr fin \<and> root_exists eventA
         \<and> \<not> exists [] ''post_shifts.png''
         \<and> map_of (out_files fin) ''post_shifts.json'' = Some (JSON (shifts_json (shifts fin)))
         \<and> sidecar_row (out_files fin) (''post_shifts.json'', JSON (shifts_json (shifts fin)))
           = None)"
proof -
  let ?row = "[JStr ''chips_post/hold/eventA_b00000.png'', JInt 1, JStr ''minor-damage'', JStr [],
       JStr [], JStr ''eventA'', JInt 0]"
  from eventA_returns obtain fin where run: "process_split sample_lib eventA [] = Inr fin" ..
  have root: "root_exists eventA" by (simp add: eventA_def)
  have clean: "\<not> exists [] ''post_shifts.png''" by (simp add: exists_def)
  note inst = catalog_rows_have_image [of chips_dir sample_lib eventA "[]" fin]
  note rows = chips_dir_rows
  then have mem: "?row \<in> set (catalog_rows chips_dir (glob_json chips_dir) [])" by simp
  from bspec [OF inst [THEN conjunct2, THEN conjunct1] mem] obtain name meta where
    "(name, JSON (JObj meta)) \<in> set chips_dir" "endswith name ''.json''"
    "truthy (dict_get meta ''image_path'' JNull)"
    "hd ?row = dict_get meta ''image_path'' JNull"
    "exists chips_dir (with_suffix name ''.png'')"
    by blast
  then have part1: "\<exists>name meta. (name, JSON (JObj meta)) \<in> set chips_dir \<and> endswith name ''.json''
         \<and> truthy (dict_get meta ''image_path'' JNull)
         \<and> dict_get meta ''image_path'' JNull = JStr ''chips_post/hold/eventA_b00000.png''
         \<and> exists chips_dir (with_suffix name ''.png'')"
    by (intro exI [of _ name] exI [of _ meta]) simp
  from inst [THEN conjunct2, THEN conjunct2, rule_format, OF run root disjI2, OF clean]
  have "map_of (out_files fin) ''post_shifts.json'' = Some (JSON (shifts_json (shifts fin)))
         \<and> sidecar_row (out_files fin) (''post_shifts.json'', JSON (shifts_json (shifts fin)))
           = None" .
  with run root clean have part2: "\<exists>fin. process_split sample_lib eventA [] = Inr fin \<and> root_exists eventA
         \<and> \<not> exists [] ''post_shifts.png''
         \<and> map_of (out_files fin) ''post_shifts.json'' = Some (JSON (shifts_json (shifts fin)))
         \<and> sidecar_row (out_files fin) (''post_shifts.json'', JSON (shifts_json (shifts fin)))
           = None"
    by (intro exI [of _ fin]) simp
  from rows part1 part2 show ?thesis by (intro conjI)
qed

end
